theory Spec2Isabelle
  imports Complex_Main "HOL-Library.AList"
begin

section \<open>Python values, errors and containers\<close>

text \<open>
  The module is Python. An exception is a value of type \<open>error\<close>; a function that can raise
  returns \<open>error + 'a\<close> with \<open>Inl\<close> for the exception. Floats are modelled as reals: no
  property below depends on rounding, only on which value is stored where.
\<close>

datatype error = AssertionError | TypeError | AttributeError | IndexError | ValueError

text \<open>Running on after a call that may have raised.\<close>

definition bind_err :: "error + 'a \<Rightarrow> ('a \<Rightarrow> error + 'b) \<Rightarrow> error + 'b" where
  "bind_err r f = (case r of Inl e \<Rightarrow> Inl e | Inr x \<Rightarrow> f x)"

text \<open>Python list operations with an \<open>int\<close> index, negative indices counting from the end.\<close>

definition py_norm_index :: "'a list \<Rightarrow> int \<Rightarrow> nat option" where
  "py_norm_index xs i =
     (if 0 \<le> i \<and> i < int (length xs) then Some (nat i)
      else if i < 0 \<and> - int (length xs) \<le> i then Some (nat (int (length xs) + i))
      else None)"

definition py_getitem :: "'a list \<Rightarrow> int \<Rightarrow> error + 'a" where
  "py_getitem xs i = (case py_norm_index xs i of None \<Rightarrow> Inl IndexError | Some j \<Rightarrow> Inr (xs ! j))"

definition py_setitem :: "'a list \<Rightarrow> int \<Rightarrow> 'a \<Rightarrow> error + 'a list" where
  "py_setitem xs i v = (case py_norm_index xs i of None \<Rightarrow> Inl IndexError | Some j \<Rightarrow> Inr (xs[j := v]))"

definition py_delitem :: "'a list \<Rightarrow> int \<Rightarrow> error + 'a list" where
  "py_delitem xs i =
     (case py_norm_index xs i of None \<Rightarrow> Inl IndexError | Some j \<Rightarrow> Inr (take j xs @ drop (Suc j) xs))"

text \<open>\<open>list.insert(i, x)\<close> never raises: the index is clamped to \<open>0..len\<close>.\<close>

definition py_insert :: "'a list \<Rightarrow> int \<Rightarrow> 'a \<Rightarrow> 'a list" where
  "py_insert xs i x =
     (let n = int (length xs); j = (if i < 0 then max 0 (n + i) else min i n)
      in take (nat j) xs @ x # drop (nat j) xs)"

text \<open>\<open>list.remove(x)\<close> deletes the first element equal to \<open>x\<close> (under the given \<open>==\<close>) and
  raises ValueError when there is none.\<close>

fun py_remove :: "('a \<Rightarrow> 'a \<Rightarrow> bool) \<Rightarrow> 'a \<Rightarrow> 'a list \<Rightarrow> error + 'a list" where
  "py_remove eq x [] = Inl ValueError"
| "py_remove eq x (y # ys) =
     (if eq y x then Inr ys
      else (case py_remove eq x ys of Inl e \<Rightarrow> Inl e | Inr zs \<Rightarrow> Inr (y # zs)))"

section \<open>EELSInterval\<close>

text \<open>
  An \<open>EELSInterval\<close> object: its two optional bounds, and \<open>obj_id\<close>, the identity of the
  Python object. The class defines no \<open>__eq__\<close>, so \<open>==\<close> on two intervals is identity.
  A function that constructs an interval takes the identity of the new object as an argument.
\<close>

record EELSInterval =
  obj_id :: nat
  start_ev :: "real option"
  end_ev :: "real option"

definition EELSInterval_eq :: "EELSInterval \<Rightarrow> EELSInterval \<Rightarrow> bool" where
  "EELSInterval_eq a b \<longleftrightarrow> obj_id a = obj_id b"

text \<open>\<open>Calibration\<close> belongs to the host library; its two conversions are given functions.
  Both raise TypeError on \<open>None\<close> (they do arithmetic on the argument).\<close>

record calibration =
  convert_to_calibrated_value :: "real \<Rightarrow> real"
  convert_from_calibrated_value :: "real \<Rightarrow> real"

definition from_fractional_interval ::
  "nat \<Rightarrow> int \<Rightarrow> calibration \<Rightarrow> (real \<times> real) option \<Rightarrow> error + EELSInterval" where
  "from_fractional_interval new_id data_len cal interval =
     (if \<not> data_len > 0 then Inl AssertionError
      else (case interval of
              None \<Rightarrow> Inl TypeError
            | Some (i0, i1) \<Rightarrow>
                (let start_pixel = i0 * real_of_int data_len; end_pixel = i1 * real_of_int data_len
                 in Inr \<lparr>obj_id = new_id,
                         start_ev = Some (convert_to_calibrated_value cal start_pixel),
                         end_ev = Some (convert_to_calibrated_value cal end_pixel)\<rparr>)))"

definition to_fractional_interval :: "EELSInterval \<Rightarrow> int \<Rightarrow> calibration \<Rightarrow> error + (real \<times> real)" where
  "to_fractional_interval self data_len cal =
     (if \<not> data_len > 0 then Inl AssertionError
      else (case start_ev self of
              None \<Rightarrow> Inl TypeError
            | Some s \<Rightarrow>
                (case end_ev self of
                   None \<Rightarrow> Inl TypeError
                 | Some e \<Rightarrow>
                     (let start_pixel = convert_from_calibrated_value cal s;
                          end_pixel = convert_from_calibrated_value cal e
                      in Inr (start_pixel / real_of_int data_len, end_pixel / real_of_int data_len)))))"

definition width_ev :: "EELSInterval \<Rightarrow> real option" where
  "width_ev self =
     (case (start_ev self, end_ev self) of (Some s, Some e) \<Rightarrow> Some (e - s) | _ \<Rightarrow> None)"

subsection \<open>Dictionaries\<close>

text \<open>
  A serialized interval is a dictionary from key to float, kept as an association list;
  \<open>d[k] = v\<close> is \<open>AList.update\<close> and \<open>d.get(k)\<close> is \<open>map_of\<close>. The dictionary an
  \<open>ElectronShell\<close> writes has a shape this module does not know (the type \<open>'sd\<close>).
\<close>

type_synonym interval_dict = "(string \<times> real) list"

datatype 'sd dictval = IntervalDict interval_dict | ShellDict 'sd

definition EELSInterval_write_to_dict :: "EELSInterval \<Rightarrow> interval_dict" where
  "EELSInterval_write_to_dict self =
     (let d = [];
          d = (case start_ev self of None \<Rightarrow> d | Some s \<Rightarrow> AList.update ''start_ev'' s d);
          d = (case end_ev self of None \<Rightarrow> d | Some e \<Rightarrow> AList.update ''end_ev'' e d)
      in d)"

section \<open>The collaborators outside this module\<close>

text \<open>
  \<open>uuid.UUID\<close>, \<open>str\<close> on a UUID, and the class \<open>PeriodicTable.ElectronShell\<close> are not part of
  this module; what the module calls of them is a parameter. \<open>UUID s = None\<close> stands for the
  ValueError of a malformed string. \<open>ShellDict_bool\<close> and \<open>ShellDict_get\<close> are truthiness and
  \<open>get\<close> of the dictionary a shell writes.
\<close>

record ('u, 'sh, 'sd) externals =
  UUID :: "string \<Rightarrow> 'u option"
  str_of_UUID :: "'u \<Rightarrow> string"
  ElectronShell_from_d :: "'sd option \<Rightarrow> error + 'sh option"
  ElectronShell_write_to_dict :: "'sh \<Rightarrow> 'sd"
  ElectronShell_bool :: "'sh \<Rightarrow> bool"
  ShellDict_bool :: "'sd \<Rightarrow> bool"
  ShellDict_get :: "'sd \<Rightarrow> string \<Rightarrow> real option"

definition dict_bool :: "('u, 'sh, 'sd) externals \<Rightarrow> 'sd dictval \<Rightarrow> bool" where
  "dict_bool ext d = (case d of IntervalDict m \<Rightarrow> m \<noteq> [] | ShellDict sd \<Rightarrow> ShellDict_bool ext sd)"

definition dict_get :: "('u, 'sh, 'sd) externals \<Rightarrow> 'sd dictval \<Rightarrow> string \<Rightarrow> real option" where
  "dict_get ext d k = (case d of IntervalDict m \<Rightarrow> map_of m k | ShellDict sd \<Rightarrow> ShellDict_get ext sd k)"

text \<open>\<open>d or dict()\<close>: the fresh empty dictionary unless \<open>d\<close> is a non-empty dictionary.\<close>

definition or_dict :: "('u, 'sh, 'sd) externals \<Rightarrow> 'sd dictval option \<Rightarrow> 'sd dictval" where
  "or_dict ext d =
     (case d of None \<Rightarrow> IntervalDict [] | Some x \<Rightarrow> if dict_bool ext x then x else IntervalDict [])"

definition from_d :: "('u, 'sh, 'sd) externals \<Rightarrow> nat \<Rightarrow> 'sd dictval option \<Rightarrow> EELSInterval" where
  "from_d ext new_id d =
     (let s = dict_get ext (or_dict ext d) ''start_ev'';
          e = dict_get ext (or_dict ext d) ''end_ev''
      in \<lparr>obj_id = new_id, start_ev = s, end_ev = e\<rparr>)"

section \<open>EELSEdge\<close>

text \<open>
  An attribute of a Python object holds whatever is assigned to it. The attribute
  \<open>__signal_eels_interval\<close> is assigned an interval, \<open>None\<close>, or (by the \<open>electron_shell\<close> setter)
  a shell, so its type is \<open>pyobj\<close>.
\<close>

datatype 'sh pyobj = PyNone | IntervalObj EELSInterval | ShellObj 'sh

record ('u, 'sh) EELSEdge =
  uuid :: 'u
  signal_eels_interval :: "'sh pyobj"
  fit_eels_intervals :: "EELSInterval list"
  electron_shell :: "'sh option"

text \<open>The serialized edge: each key is present (\<open>Some\<close>) or absent.\<close>

record 'sd EdgeDict =
  d_uuid :: "string option"
  d_signal_eels_interval :: "'sd dictval option"
  d_fit_eels_intervals :: "interval_dict list option"
  d_electron_shell :: "'sd option"

text \<open>The notifications of \<open>Observable\<close>, as the values an edge hands to its listeners.\<close>

datatype notification =
    PropertyChanged string
  | ItemInserted string EELSInterval int
  | ItemRemoved string EELSInterval int
  | ItemValueChanged string EELSInterval int

text \<open>
  \<open>EELSEdge.__init__\<close>. \<open>u1\<close> and \<open>u2\<close> are the values of the two \<open>uuid.uuid4()\<close> calls (the second
  is the eagerly evaluated default of \<open>d.get("uuid", ...)\<close>); the new interval objects get the
  identities \<open>new_id\<close>, \<open>new_id + 1\<close>, ...
\<close>

definition enumerate_from :: "nat \<Rightarrow> 'a list \<Rightarrow> (nat \<times> 'a) list" where
  "enumerate_from n xs = zip [n ..< n + length xs] xs"

definition EELSEdge_init ::
  "('u, 'sh, 'sd) externals \<Rightarrow> 'u \<Rightarrow> 'u \<Rightarrow> nat \<Rightarrow> EELSInterval option \<Rightarrow> EELSInterval list option
     \<Rightarrow> 'sh option \<Rightarrow> 'sd EdgeDict option \<Rightarrow> error + ('u, 'sh) EELSEdge" where
  "EELSEdge_init ext u1 u2 new_id signal fits shell d =
     (let self = \<lparr>uuid = u1,
                  signal_eels_interval = (case signal of None \<Rightarrow> PyNone | Some i \<Rightarrow> IntervalObj i),
                  fit_eels_intervals = (case fits of None \<Rightarrow> [] | Some xs \<Rightarrow> if xs = [] then [] else xs),
                  electron_shell = shell\<rparr>
      in case d of
           None \<Rightarrow> Inr self
         | Some d \<Rightarrow>
             (case UUID ext (case d_uuid d of None \<Rightarrow> str_of_UUID ext u2 | Some s \<Rightarrow> s) of
                None \<Rightarrow> Inl ValueError
              | Some u \<Rightarrow>
                  (let sig = from_d ext new_id (d_signal_eels_interval d);
                       fs = map (\<lambda>(k, fit_interval_d). from_d ext k (Some (IntervalDict fit_interval_d)))
                              (enumerate_from (Suc new_id)
                                 (case d_fit_eels_intervals d of None \<Rightarrow> [] | Some l \<Rightarrow> l))
                   in case ElectronShell_from_d ext (d_electron_shell d) of
                        Inl e \<Rightarrow> Inl e
                      | Inr sh \<Rightarrow>
                          Inr \<lparr>uuid = u, signal_eels_interval = IntervalObj sig,
                               fit_eels_intervals = fs, electron_shell = sh\<rparr>)))"

text \<open>Truthiness of what the attribute holds: \<open>None\<close> is false, an \<open>EELSInterval\<close> (no
  \<open>__bool__\<close>, no \<open>__len__\<close>) is true, a shell is what its class says.\<close>

definition pyobj_bool :: "('u, 'sh, 'sd) externals \<Rightarrow> 'sh pyobj \<Rightarrow> bool" where
  "pyobj_bool ext x =
     (case x of PyNone \<Rightarrow> False | IntervalObj i \<Rightarrow> True | ShellObj s \<Rightarrow> ElectronShell_bool ext s)"

definition pyobj_write_to_dict :: "('u, 'sh, 'sd) externals \<Rightarrow> 'sh pyobj \<Rightarrow> error + 'sd dictval" where
  "pyobj_write_to_dict ext x =
     (case x of
        PyNone \<Rightarrow> Inl AttributeError
      | IntervalObj i \<Rightarrow> Inr (IntervalDict (EELSInterval_write_to_dict i))
      | ShellObj s \<Rightarrow> Inr (ShellDict (ElectronShell_write_to_dict ext s)))"

text \<open>The statement \<open>if self.__signal_eels_interval: d["signal_eels_interval"] = ...\<close>, which
  \<open>_write_to_dict\<close> has twice.\<close>

definition write_signal_key ::
  "('u, 'sh, 'sd) externals \<Rightarrow> ('u, 'sh) EELSEdge \<Rightarrow> 'sd EdgeDict \<Rightarrow> error + 'sd EdgeDict" where
  "write_signal_key ext self d =
     (if pyobj_bool ext (signal_eels_interval self)
      then bind_err (pyobj_write_to_dict ext (signal_eels_interval self))
             (\<lambda>v. Inr (d\<lparr>d_signal_eels_interval := Some v\<rparr>))
      else Inr d)"

definition EELSEdge_write_to_dict ::
  "('u, 'sh, 'sd) externals \<Rightarrow> ('u, 'sh) EELSEdge \<Rightarrow> error + 'sd EdgeDict" where
  "EELSEdge_write_to_dict ext self =
     (let d = \<lparr>d_uuid = Some (str_of_UUID ext (uuid self)), d_signal_eels_interval = None,
               d_fit_eels_intervals = None, d_electron_shell = None\<rparr>
      in bind_err (write_signal_key ext self d) (\<lambda>d.
         let d = (if length (fit_eels_intervals self) > 0
                  then d\<lparr>d_fit_eels_intervals :=
                            Some (map EELSInterval_write_to_dict (fit_eels_intervals self))\<rparr>
                  else d)
         in bind_err (write_signal_key ext self d) (\<lambda>d.
            Inr (case electron_shell self of
                   None \<Rightarrow> d
                 | Some s \<Rightarrow>
                     if ElectronShell_bool ext s
                     then d\<lparr>d_electron_shell := Some (ElectronShell_write_to_dict ext s)\<rparr>
                     else d))))"

subsection \<open>Mutators\<close>

text \<open>Each mutator returns the edge after the assignment and the notifications it then fires.\<close>

definition set_signal_eels_interval ::
  "('u, 'sh) EELSEdge \<Rightarrow> 'sh pyobj \<Rightarrow> ('u, 'sh) EELSEdge \<times> notification list" where
  "set_signal_eels_interval self v =
     (self\<lparr>signal_eels_interval := v\<rparr>, [PropertyChanged ''signal_eels_interval''])"

definition set_electron_shell ::
  "('u, 'sh) EELSEdge \<Rightarrow> 'sh pyobj \<Rightarrow> ('u, 'sh) EELSEdge \<times> notification list" where
  "set_electron_shell self v =
     (self\<lparr>signal_eels_interval := v\<rparr>, [PropertyChanged ''electron_shell''])"

definition insert_fit_eels_interval ::
  "('u, 'sh) EELSEdge \<Rightarrow> int \<Rightarrow> EELSInterval \<Rightarrow> ('u, 'sh) EELSEdge \<times> notification list" where
  "insert_fit_eels_interval self index interval =
     (self\<lparr>fit_eels_intervals := py_insert (fit_eels_intervals self) index interval\<rparr>,
      [ItemInserted ''fit_eels_intervals'' interval index])"

definition append_fit_eels_interval ::
  "('u, 'sh) EELSEdge \<Rightarrow> EELSInterval \<Rightarrow> ('u, 'sh) EELSEdge \<times> notification list" where
  "append_fit_eels_interval self interval =
     insert_fit_eels_interval self (int (length (fit_eels_intervals self))) interval"

definition remove_fit_eels_interval ::
  "('u, 'sh) EELSEdge \<Rightarrow> int \<Rightarrow> error + ('u, 'sh) EELSEdge \<times> notification list" where
  "remove_fit_eels_interval self index =
     (case py_getitem (fit_eels_intervals self) index of
        Inl e \<Rightarrow> Inl e
      | Inr fit_interval \<Rightarrow>
          (case py_remove EELSInterval_eq fit_interval (fit_eels_intervals self) of
             Inl e \<Rightarrow> Inl e
           | Inr xs \<Rightarrow>
               Inr (self\<lparr>fit_eels_intervals := xs\<rparr>,
                    [ItemRemoved ''fit_eels_intervals'' fit_interval index])))"

definition set_fit_eels_interval ::
  "('u, 'sh) EELSEdge \<Rightarrow> int \<Rightarrow> EELSInterval \<Rightarrow> error + ('u, 'sh) EELSEdge \<times> notification list" where
  "set_fit_eels_interval self index interval =
     (case py_setitem (fit_eels_intervals self) index interval of
        Inl e \<Rightarrow> Inl e
      | Inr xs \<Rightarrow>
          Inr (self\<lparr>fit_eels_intervals := xs\<rparr>,
               [ItemValueChanged ''fit_eels_intervals'' interval index]))"


section \<open>An instance of the collaborators\<close>

text \<open>
  A concrete choice for the parameters, used to run the definitions: UUIDs and shells are
  their own strings, the empty string is not a UUID, and a shell writes itself.
\<close>

definition example_externals :: "(string, string, string) externals" where
  "example_externals =
     \<lparr>UUID = (\<lambda>s. if s = [] then None else Some s), str_of_UUID = (\<lambda>u. u),
      ElectronShell_from_d = (\<lambda>d. Inr d), ElectronShell_write_to_dict = (\<lambda>s. s),
      ElectronShell_bool = (\<lambda>s. True), ShellDict_bool = (\<lambda>d. d \<noteq> []),
      ShellDict_get = (\<lambda>d k. None)\<rparr>"

definition example_edge :: "(string, string) EELSEdge" where
  "example_edge =
     \<lparr>uuid = ''e1'',
      signal_eels_interval = IntervalObj \<lparr>obj_id = 0, start_ev = Some 400, end_ev = Some 420\<rparr>,
      fit_eels_intervals = [], electron_shell = None\<rparr>"

definition interval_A :: EELSInterval where
  "interval_A = \<lparr>obj_id = 10, start_ev = Some 100, end_ev = Some 110\<rparr>"

definition interval_B :: EELSInterval where
  "interval_B = \<lparr>obj_id = 11, start_ev = Some 200, end_ev = Some 210\<rparr>"

definition edge_ABA :: "(string, string) EELSEdge" where
  "edge_ABA = \<lparr>uuid = ''e2'', signal_eels_interval = PyNone,
               fit_eels_intervals = [interval_A, interval_B, interval_A], electron_shell = None\<rparr>"

definition edge_without_signal :: "(string, string) EELSEdge" where
  "edge_without_signal =
     \<lparr>uuid = ''e3'', signal_eels_interval = PyNone, fit_eels_intervals = [], electron_shell = None\<rparr>"

definition dict_without_signal :: "string EdgeDict" where
  "dict_without_signal =
     \<lparr>d_uuid = Some ''e3'', d_signal_eels_interval = None, d_fit_eels_intervals = None,
      d_electron_shell = None\<rparr>"

definition edge_with_gaps :: "(string, string) EELSEdge" where
  "edge_with_gaps =
     \<lparr>uuid = ''e4'',
      signal_eels_interval = IntervalObj \<lparr>obj_id = 20, start_ev = Some 400, end_ev = None\<rparr>,
      fit_eels_intervals = [\<lparr>obj_id = 21, start_ev = None, end_ev = Some 390\<rparr>,
                            \<lparr>obj_id = 22, start_ev = None, end_ev = None\<rparr>,
                            \<lparr>obj_id = 23, start_ev = Some 430, end_ev = Some 450\<rparr>],
      electron_shell = Some ''K''\<rparr>"

section \<open>EELSEdgeDisplay and EELSQuantificationDisplay\<close>

text \<open>
  Data items, graphics, display items and event listeners belong to the host; the module
  holds references to them, here natural numbers. A \<open>Computation\<close> is read through
  \<open>_get_variable\<close> (\<open>None\<close> when there is no such variable) and \<open>get_referenced_object\<close>.
\<close>

record computation =
  computation_id :: nat
  processing_id :: string
  source :: "nat option"
  eels_edge_uuid_var :: "string option"
  fit_interval_graphics_var :: "nat list option"
  signal_interval_graphic_var :: "nat option"
  subtracted_object :: "nat option"
  background_object :: "nat option"

text \<open>The two connection objects, as the listeners they hold; a field is \<open>None\<close> after \<open>close()\<close>.\<close>

record IntervalConnection =
  interval_graphic_listener :: "nat option"
  interval_binding :: "nat option"

record IntervalListConnection =
  item_inserted_event_listener :: "nat option"
  item_removed_event_listener :: "nat option"
  item_value_changed_event_listener :: "nat option"
  fit_interval_graphic_property_changed_listeners :: "nat list option"
  fit_interval_graphic_about_to_be_removed_listeners :: "nat list option"

record ('u, 'sh) EELSEdgeDisplay =
  eels_edge :: "('u, 'sh) EELSEdge"
  background_data_item :: "nat option"
  signal_data_item :: "nat option"
  signal_interval_graphic :: "nat option"
  fit_interval_graphics :: "nat list"
  computation :: "computation option"
  signal_interval_connection :: "IntervalConnection option"
  interval_list_connection :: "IntervalListConnection option"
  signal_interval_about_to_close_connection :: "nat option"
  computation_about_to_close_connection :: "nat option"

definition EELSEdgeDisplay_init :: "('u, 'sh) EELSEdge \<Rightarrow> ('u, 'sh) EELSEdgeDisplay" where
  "EELSEdgeDisplay_init e =
     \<lparr>eels_edge = e, background_data_item = None, signal_data_item = None,
      signal_interval_graphic = None, fit_interval_graphics = [], computation = None,
      signal_interval_connection = None, interval_list_connection = None,
      signal_interval_about_to_close_connection = None,
      computation_about_to_close_connection = None\<rparr>"

subsection \<open>Reconstruction from the persisted record\<close>

definition get_eels_edge_from_uuid ::
  "('u, 'sh) EELSEdge list \<Rightarrow> 'u \<Rightarrow> ('u, 'sh) EELSEdge option" where
  "get_eels_edge_from_uuid eels_edges eels_edge_uuid = find (\<lambda>e. uuid e = eels_edge_uuid) eels_edges"


text \<open>
  The second loop. An entry of \<open>eels_edge_displays\<close> is the value under its key
  \<open>eels_edge_uuid\<close> (\<open>None\<close> when the key is absent), paired with the value \<open>uuid.uuid4()\<close>
  takes in that iteration (the default of \<open>get\<close> is evaluated every time).
\<close>

fun edge_displays_loop ::
  "('u, 'sh, 'sd) externals \<Rightarrow> ('u, 'sh) EELSEdge list \<Rightarrow> (string option \<times> 'u) list
     \<Rightarrow> ('u \<rightharpoonup> computation) \<Rightarrow> ('u, 'sh) EELSEdgeDisplay list
     \<Rightarrow> error + ('u, 'sh) EELSEdgeDisplay list" where
  "edge_displays_loop ext eels_edges [] computation_map eels_edge_displays = Inr eels_edge_displays"
| "edge_displays_loop ext eels_edges ((d, r) # ds) computation_map eels_edge_displays =
     (case UUID ext (case d of None \<Rightarrow> str_of_UUID ext r | Some s \<Rightarrow> s) of
        None \<Rightarrow> Inl ValueError
      | Some eels_edge_uuid \<Rightarrow>
          (case computation_map eels_edge_uuid of
             None \<Rightarrow> edge_displays_loop ext eels_edges ds computation_map eels_edge_displays
           | Some c \<Rightarrow>
               (case fit_interval_graphics_var c of
                  None \<Rightarrow> Inl AttributeError
                | Some fit_graphics \<Rightarrow>
                    (case signal_interval_graphic_var c of
                       None \<Rightarrow> Inl AttributeError
                     | Some signal_graphic \<Rightarrow>
                         (case get_eels_edge_from_uuid eels_edges eels_edge_uuid of
                            None \<Rightarrow> Inl AssertionError
                          | Some e \<Rightarrow>
                              edge_displays_loop ext eels_edges ds
                                (computation_map(eels_edge_uuid := None))
                                (eels_edge_displays @
                                   [(EELSEdgeDisplay_init e)
                                      \<lparr>computation := Some c,
                                       fit_interval_graphics := fit_graphics,
                                       signal_interval_graphic := Some signal_graphic,
                                       background_data_item := background_object c,
                                       signal_data_item := subtracted_object c\<rparr>]))))))"




definition stale_computation :: computation where
  "stale_computation =
     \<lparr>computation_id = 1, processing_id = ''eels.background_subtraction2'', source = Some 5,
      eels_edge_uuid_var = Some ''e9'', fit_interval_graphics_var = Some [61, 62],
      signal_interval_graphic_var = Some 60, subtracted_object = Some 70,
      background_object = Some 71\<rparr>"



subsection \<open>Hiding an edge display\<close>

text \<open>
  Modelled from the spec: the host document as far as \<open>hide\<close> touches it (the data items
  and computations of the document model, the graphics of the display item, the event
  listeners that are open); its operations are the host's, not this module's. Removing a
  computation removes its two derived data items by cascade (the source relies on it:
  "these items should auto remove with the computation"). Removing a computation or a
  graphic that is not there any more does nothing and never raises, and closing a listener
  that is already closed does nothing (spec, section 7: "closing an already-closed
  subscription or removing an already-absent item from the document is a no-op").
\<close>

record document =
  data_items :: "nat list"
  computations :: "computation list"
  display_graphics :: "nat list"
  listening :: "nat list"

definition close_listener :: "nat \<Rightarrow> document \<Rightarrow> document" where
  "close_listener l m = m\<lparr>listening := removeAll l (listening m)\<rparr>"

definition remove_computation :: "computation \<Rightarrow> document \<Rightarrow> document" where
  "remove_computation c m =
     (if c \<in> set (computations m)
      then m\<lparr>computations := removeAll c (computations m),
             data_items := filter (\<lambda>i. Some i \<noteq> subtracted_object c \<and> Some i \<noteq> background_object c)
                             (data_items m)\<rparr>
      else m)"

definition remove_graphic :: "nat \<Rightarrow> document \<Rightarrow> document" where
  "remove_graphic g m =
     (if g \<in> set (display_graphics m)
      then m\<lparr>display_graphics := removeAll g (display_graphics m)\<rparr>
      else m)"

definition remove_data_item :: "nat \<Rightarrow> document \<Rightarrow> document" where
  "remove_data_item i m = m\<lparr>data_items := removeAll i (data_items m)\<rparr>"

text \<open>\<open>IntervalConnection.close\<close> and \<open>IntervalListConnection.close\<close>. The second calls
  \<open>close()\<close> on its three edge listeners and iterates over its two lists without a test, so
  it raises on a connection that was closed before.\<close>

definition close_if_set :: "nat option \<Rightarrow> document \<Rightarrow> document" where
  "close_if_set l m = (case l of None \<Rightarrow> m | Some x \<Rightarrow> close_listener x m)"

definition IntervalConnection_close :: "IntervalConnection \<Rightarrow> document \<Rightarrow> document" where
  "IntervalConnection_close c m =
     close_if_set (interval_binding c) (close_if_set (interval_graphic_listener c) m)"

definition close_or_raise :: "nat option \<Rightarrow> document \<Rightarrow> error + document" where
  "close_or_raise l m = (case l of None \<Rightarrow> Inl AttributeError | Some x \<Rightarrow> Inr (close_listener x m))"

definition close_each :: "nat list option \<Rightarrow> document \<Rightarrow> error + document" where
  "close_each ls m = (case ls of None \<Rightarrow> Inl TypeError | Some xs \<Rightarrow> Inr (fold close_listener xs m))"

definition IntervalListConnection_close :: "IntervalListConnection \<Rightarrow> document \<Rightarrow> error + document" where
  "IntervalListConnection_close c m =
     bind_err (close_or_raise (item_inserted_event_listener c) m) (\<lambda>m.
     bind_err (close_or_raise (item_removed_event_listener c) m) (\<lambda>m.
     bind_err (close_or_raise (item_value_changed_event_listener c) m) (\<lambda>m.
     bind_err (close_each (fit_interval_graphic_property_changed_listeners c) m) (\<lambda>m.
     close_each (fit_interval_graphic_about_to_be_removed_listeners c) m))))"

fun remove_graphics :: "nat list \<Rightarrow> document \<Rightarrow> document" where
  "remove_graphics [] m = m"
| "remove_graphics (g # gs) m = remove_graphics gs (remove_graphic g m)"

text \<open>
  \<open>EELSEdgeDisplay.hide\<close> on the pair of the display and the document: one definition for
  each statement of the source, in its order, and \<open>hide\<close> running them one after the other
  until one raises.
\<close>

type_synonym ('u, 'sh) hide_state = "('u, 'sh) EELSEdgeDisplay \<times> document"

definition hide_signal_interval_connection ::
  "('u, 'sh) hide_state \<Rightarrow> error + ('u, 'sh) hide_state" where
  "hide_signal_interval_connection p =
     (case signal_interval_connection (fst p) of
        None \<Rightarrow> Inr p
      | Some c \<Rightarrow> Inr ((fst p)\<lparr>signal_interval_connection := None\<rparr>,
                        IntervalConnection_close c (snd p)))"

definition hide_interval_list_connection ::
  "('u, 'sh) hide_state \<Rightarrow> error + ('u, 'sh) hide_state" where
  "hide_interval_list_connection p =
     (case interval_list_connection (fst p) of
        None \<Rightarrow> Inr p
      | Some c \<Rightarrow> bind_err (IntervalListConnection_close c (snd p))
                    (\<lambda>m. Inr ((fst p)\<lparr>interval_list_connection := None\<rparr>, m)))"

definition hide_signal_interval_about_to_close_connection ::
  "('u, 'sh) hide_state \<Rightarrow> error + ('u, 'sh) hide_state" where
  "hide_signal_interval_about_to_close_connection p =
     (case signal_interval_about_to_close_connection (fst p) of
        None \<Rightarrow> Inr p
      | Some l \<Rightarrow> Inr ((fst p)\<lparr>signal_interval_about_to_close_connection := None\<rparr>,
                        close_listener l (snd p)))"

definition hide_computation_about_to_close_connection ::
  "('u, 'sh) hide_state \<Rightarrow> error + ('u, 'sh) hide_state" where
  "hide_computation_about_to_close_connection p =
     (case computation_about_to_close_connection (fst p) of
        None \<Rightarrow> Inr p
      | Some l \<Rightarrow> Inr ((fst p)\<lparr>computation_about_to_close_connection := None\<rparr>,
                        close_listener l (snd p)))"

definition hide_computation :: "('u, 'sh) hide_state \<Rightarrow> error + ('u, 'sh) hide_state" where
  "hide_computation p =
     (case computation (fst p) of
        None \<Rightarrow> Inr p
      | Some c \<Rightarrow> Inr ((fst p)\<lparr>computation := None\<rparr>, remove_computation c (snd p)))"

definition hide_signal_interval_graphic :: "('u, 'sh) hide_state \<Rightarrow> error + ('u, 'sh) hide_state" where
  "hide_signal_interval_graphic p =
     (case signal_interval_graphic (fst p) of
        None \<Rightarrow> Inr p
      | Some g \<Rightarrow> Inr ((fst p)\<lparr>signal_interval_graphic := None\<rparr>, remove_graphic g (snd p)))"

definition hide_fit_interval_graphics :: "('u, 'sh) hide_state \<Rightarrow> error + ('u, 'sh) hide_state" where
  "hide_fit_interval_graphics p =
     Inr ((fst p)\<lparr>fit_interval_graphics := []\<rparr>,
          remove_graphics (fit_interval_graphics (fst p)) (snd p))"

definition hide_background_data_item :: "('u, 'sh) hide_state \<Rightarrow> error + ('u, 'sh) hide_state" where
  "hide_background_data_item p =
     (case background_data_item (fst p) of
        None \<Rightarrow> Inr p
      | Some i \<Rightarrow> if i \<in> set (data_items (snd p))
                  then Inr ((fst p)\<lparr>background_data_item := None\<rparr>, remove_data_item i (snd p))
                  else Inr p)"

definition hide_signal_data_item :: "('u, 'sh) hide_state \<Rightarrow> error + ('u, 'sh) hide_state" where
  "hide_signal_data_item p =
     (case signal_data_item (fst p) of
        None \<Rightarrow> Inr p
      | Some i \<Rightarrow> if i \<in> set (data_items (snd p))
                  then Inr ((fst p)\<lparr>signal_data_item := None\<rparr>, remove_data_item i (snd p))
                  else Inr p)"

definition hide ::
  "('u, 'sh) EELSEdgeDisplay \<Rightarrow> document \<Rightarrow> error + ('u, 'sh) hide_state" where
  "hide self m =
     bind_err (hide_signal_interval_connection (self, m)) (\<lambda>p.
     bind_err (hide_interval_list_connection p) (\<lambda>p.
     bind_err (hide_signal_interval_about_to_close_connection p) (\<lambda>p.
     bind_err (hide_computation_about_to_close_connection p) (\<lambda>p.
     bind_err (hide_computation p) (\<lambda>p.
     bind_err (hide_signal_interval_graphic p) (\<lambda>p.
     bind_err (hide_fit_interval_graphics p) (\<lambda>p.
     bind_err (hide_background_data_item p) (\<lambda>p.
     hide_signal_data_item p))))))))"

text \<open>The listeners a display holds through its four connection fields.\<close>

definition display_listeners :: "('u, 'sh) EELSEdgeDisplay \<Rightarrow> nat list" where
  "display_listeners self =
     (case signal_interval_connection self of
        None \<Rightarrow> []
      | Some c \<Rightarrow> (case interval_graphic_listener c of None \<Rightarrow> [] | Some l \<Rightarrow> [l]) @
                  (case interval_binding c of None \<Rightarrow> [] | Some l \<Rightarrow> [l])) @
     (case interval_list_connection self of
        None \<Rightarrow> []
      | Some c \<Rightarrow> (case item_inserted_event_listener c of None \<Rightarrow> [] | Some l \<Rightarrow> [l]) @
                  (case item_removed_event_listener c of None \<Rightarrow> [] | Some l \<Rightarrow> [l]) @
                  (case item_value_changed_event_listener c of None \<Rightarrow> [] | Some l \<Rightarrow> [l]) @
                  (case fit_interval_graphic_property_changed_listeners c of None \<Rightarrow> [] | Some ls \<Rightarrow> ls) @
                  (case fit_interval_graphic_about_to_be_removed_listeners c of None \<Rightarrow> [] | Some ls \<Rightarrow> ls)) @
     (case signal_interval_about_to_close_connection self of None \<Rightarrow> [] | Some l \<Rightarrow> [l]) @
     (case computation_about_to_close_connection self of None \<Rightarrow> [] | Some l \<Rightarrow> [l])"

text \<open>
  The list connection a display holds, if it holds one, has not been closed. \<open>show\<close> stores
  a connection it has just constructed, and \<open>hide\<close> and \<open>show\<close> clear the field right after
  they close the connection, so the field never holds a closed one.
\<close>

definition interval_list_connection_open :: "('u, 'sh) EELSEdgeDisplay \<Rightarrow> bool" where
  "interval_list_connection_open self =
     (case interval_list_connection self of
        None \<Rightarrow> True
      | Some c \<Rightarrow> item_inserted_event_listener c \<noteq> None \<and> item_removed_event_listener c \<noteq> None \<and>
                  item_value_changed_event_listener c \<noteq> None \<and>
                  fit_interval_graphic_property_changed_listeners c \<noteq> None \<and>
                  fit_interval_graphic_about_to_be_removed_listeners c \<noteq> None)"

text \<open>A display that holds nothing any more: no connection, no computation, no graphic, and no
  data item that is still in the document.\<close>

definition hidden :: "('u, 'sh) EELSEdgeDisplay \<Rightarrow> document \<Rightarrow> bool" where
  "hidden self m \<longleftrightarrow>
     signal_interval_connection self = None \<and> interval_list_connection self = None \<and>
     signal_interval_about_to_close_connection self = None \<and>
     computation_about_to_close_connection self = None \<and>
     computation self = None \<and> signal_interval_graphic self = None \<and>
     fit_interval_graphics self = [] \<and>
     (case background_data_item self of None \<Rightarrow> True | Some i \<Rightarrow> i \<notin> set (data_items m)) \<and>
     (case signal_data_item self of None \<Rightarrow> True | Some i \<Rightarrow> i \<notin> set (data_items m))"

text \<open>
  A shown display with its document, and what \<open>hide\<close> leaves of them; the document after
  the host has removed the computation (and, by cascade, the data items 70 and 71) while the
  display still holds them; and the display that \<open>__read\<close> builds from that computation,
  which has no connection.
\<close>

definition shown_display :: "(string, string) EELSEdgeDisplay" where
  "shown_display =
     \<lparr>eels_edge = example_edge, background_data_item = Some 71, signal_data_item = Some 70,
      signal_interval_graphic = Some 60, fit_interval_graphics = [61, 62],
      computation = Some stale_computation,
      signal_interval_connection =
        Some \<lparr>interval_graphic_listener = Some 100, interval_binding = Some 101\<rparr>,
      interval_list_connection =
        Some \<lparr>item_inserted_event_listener = Some 102, item_removed_event_listener = Some 103,
              item_value_changed_event_listener = Some 104,
              fit_interval_graphic_property_changed_listeners = Some [105, 106],
              fit_interval_graphic_about_to_be_removed_listeners = Some [107, 108]\<rparr>,
      signal_interval_about_to_close_connection = Some 109,
      computation_about_to_close_connection = Some 110\<rparr>"

definition shown_document :: document where
  "shown_document =
     \<lparr>data_items = [4, 70, 71], computations = [stale_computation],
      display_graphics = [60, 61, 62, 63],
      listening = [100, 101, 102, 103, 104, 105, 106, 107, 108, 109, 110, 200]\<rparr>"

definition hidden_display :: "(string, string) EELSEdgeDisplay" where
  "hidden_display =
     \<lparr>eels_edge = example_edge, background_data_item = Some 71, signal_data_item = Some 70,
      signal_interval_graphic = None, fit_interval_graphics = [], computation = None,
      signal_interval_connection = None, interval_list_connection = None,
      signal_interval_about_to_close_connection = None,
      computation_about_to_close_connection = None\<rparr>"

definition hidden_document :: document where
  "hidden_document =
     \<lparr>data_items = [4], computations = [], display_graphics = [63], listening = [200]\<rparr>"

definition removed_document :: document where
  "removed_document =
     \<lparr>data_items = [4], computations = [],
      display_graphics = [60, 61, 62, 63],
      listening = [100, 101, 102, 103, 104, 105, 106, 107, 108, 109, 110, 200]\<rparr>"

definition reloaded_display :: "(string, string) EELSEdgeDisplay" where
  "reloaded_display =
     (EELSEdgeDisplay_init example_edge)
       \<lparr>computation := Some stale_computation,
        fit_interval_graphics := [61, 62],
        signal_interval_graphic := Some 60,
        background_data_item := background_object stale_computation,
        signal_data_item := subtracted_object stale_computation\<rparr>"

section \<open>IntervalConnection\<close>

text \<open>
  The connection between one interval property of an edge and one interval graphic. The
  world it acts in: the edge, the graphic's \<open>interval\<close> property, the connection (\<open>None\<close>
  before it is constructed), the identity the next new \<open>EELSInterval\<close> object gets, and a
  log of every write to the edge's property and to the graphic's \<open>interval\<close>, in order.
\<close>

datatype 'sh logged_write = EdgeWrite string "'sh pyobj" | GraphicWrite "(real \<times> real) option"

text \<open>What \<open>IntervalConnection.__init__\<close> leaves behind: the converter, the binding with its
  property name and target setter, the cell \<open>blocked[0]\<close>, and the two listeners.\<close>

record connection_state =
  interval_property_name :: string
  eels_data_len :: int
  eels_calibration :: calibration
  target_setter_set :: bool
  blocked :: bool
  graphic_listener_open :: bool
  binding_listener_open :: bool

record ('u, 'sh) connection_world =
  the_edge :: "('u, 'sh) EELSEdge"
  graphic_interval :: "(real \<times> real) option"
  connection :: "connection_state option"
  next_obj_id :: nat
  writes :: "'sh logged_write list"

definition IntervalConnection_init ::
  "('u, 'sh) connection_world \<Rightarrow> int \<Rightarrow> calibration \<Rightarrow> string \<Rightarrow> ('u, 'sh) connection_world" where
  "IntervalConnection_init w data_len cal name =
     w\<lparr>connection := Some \<lparr>interval_property_name = name, eels_data_len = data_len,
                             eels_calibration = cal, target_setter_set = True, blocked = False,
                             graphic_listener_open = True, binding_listener_open = True\<rparr>\<rparr>"

text \<open>The converter: \<open>convert\<close> calls \<open>to_fractional_interval\<close> on its argument, which only an
  \<open>EELSInterval\<close> has; \<open>convert_back\<close> makes a new interval object.\<close>

definition convert :: "connection_state \<Rightarrow> 'sh pyobj \<Rightarrow> error + (real \<times> real)" where
  "convert c x =
     (case x of
        IntervalObj i \<Rightarrow> to_fractional_interval i (eels_data_len c) (eels_calibration c)
      | _ \<Rightarrow> Inl AttributeError)"

definition convert_back :: "connection_state \<Rightarrow> nat \<Rightarrow> (real \<times> real) option \<Rightarrow> error + EELSInterval" where
  "convert_back c new_id interval =
     from_fractional_interval new_id (eels_data_len c) (eels_calibration c) interval"

text \<open>\<open>getattr\<close> and \<open>setattr\<close> on the two properties of an edge that have a setter; any other
  name is refused.\<close>

definition edge_getattr :: "('u, 'sh) EELSEdge \<Rightarrow> string \<Rightarrow> error + 'sh pyobj" where
  "edge_getattr e name =
     (if name = ''signal_eels_interval'' then Inr (signal_eels_interval e)
      else if name = ''electron_shell''
      then Inr (case electron_shell e of None \<Rightarrow> PyNone | Some s \<Rightarrow> ShellObj s)
      else Inl AttributeError)"

definition edge_setattr ::
  "('u, 'sh) EELSEdge \<Rightarrow> string \<Rightarrow> 'sh pyobj \<Rightarrow> error + ('u, 'sh) EELSEdge \<times> notification list" where
  "edge_setattr e name v =
     (if name = ''signal_eels_interval'' then Inr (set_signal_eels_interval e v)
      else if name = ''electron_shell'' then Inr (set_electron_shell e v)
      else Inl AttributeError)"

text \<open>
  Modelled from the spec: the graphic and the property binding are the host's
  (\<open>Graphics.IntervalGraphic\<close>, \<open>Binding.PropertyBinding\<close>, \<open>Observable\<close>), not this module's.
  Assigning \<open>graphic.interval\<close> stores the value and fires the graphic's own
  property-changed notification (\<open>interval\<close>). The binding listens to the edge's
  property-changed notification and, for its own property, hands the converted value to its
  target setter (the fallback \<open>None\<close> when the property holds \<open>None\<close>); \<open>update_source\<close> assigns
  the converted-back value to the edge's property. Notifications are delivered
  synchronously, and an exception in a listener ends the run.

  The six functions call each other as the source and the library do:
  \<open>graphic.interval = v\<close> fires \<open>update_eels_interval\<close>, which (unless blocked) calls
  \<open>update_source\<close>, which assigns the edge's property, whose notification reaches the
  binding, which calls \<open>update_interval\<close>, which assigns \<open>graphic.interval\<close>.
\<close>

definition chain_level :: "('u, 'sh) connection_world \<Rightarrow> nat" where
  "chain_level w = (case connection w of None \<Rightarrow> 0 | Some c \<Rightarrow> if blocked c then 0 else 6)"

function (sequential)
    IntervalGraphic_set_interval ::
      "('u, 'sh) connection_world \<Rightarrow> (real \<times> real) option \<Rightarrow> error + ('u, 'sh) connection_world"
and update_eels_interval ::
      "('u, 'sh) connection_world \<Rightarrow> string \<Rightarrow> error + ('u, 'sh) connection_world"
and Binding_update_source ::
      "('u, 'sh) connection_world \<Rightarrow> (real \<times> real) option \<Rightarrow> error + ('u, 'sh) connection_world"
and EELSEdge_setattr ::
      "('u, 'sh) connection_world \<Rightarrow> string \<Rightarrow> 'sh pyobj \<Rightarrow> error + ('u, 'sh) connection_world"
and PropertyBinding_property_changed ::
      "('u, 'sh) connection_world \<Rightarrow> string \<Rightarrow> error + ('u, 'sh) connection_world"
and update_interval ::
      "('u, 'sh) connection_world \<Rightarrow> (real \<times> real) option \<Rightarrow> error + ('u, 'sh) connection_world"
where
  "IntervalGraphic_set_interval w v =
     (let w = w\<lparr>graphic_interval := v, writes := writes w @ [GraphicWrite v]\<rparr>
      in case connection w of
           None \<Rightarrow> Inr w
         | Some c \<Rightarrow> if graphic_listener_open c then update_eels_interval w ''interval'' else Inr w)"
| "update_eels_interval w property_name =
     (case connection w of
        None \<Rightarrow> Inr w
      | Some c \<Rightarrow>
          if property_name = ''interval'' \<and> \<not> blocked c
          then (case Binding_update_source (w\<lparr>connection := Some (c\<lparr>blocked := True\<rparr>)\<rparr>)
                       (graphic_interval w) of
                  Inl e \<Rightarrow> Inl e
                | Inr w \<Rightarrow> Inr (w\<lparr>connection := map_option (\<lambda>c. c\<lparr>blocked := False\<rparr>) (connection w)\<rparr>))
          else Inr w)"
| "Binding_update_source w target_value =
     (case connection w of
        None \<Rightarrow> Inr w
      | Some c \<Rightarrow>
          (case convert_back c (next_obj_id w) target_value of
             Inl e \<Rightarrow> Inl e
           | Inr x \<Rightarrow> EELSEdge_setattr (w\<lparr>next_obj_id := Suc (next_obj_id w)\<rparr>)
                        (interval_property_name c) (IntervalObj x)))"
| "EELSEdge_setattr w name v =
     (case edge_setattr (the_edge w) name v of
        Inl e \<Rightarrow> Inl e
      | Inr (e, ns) \<Rightarrow>
          PropertyBinding_property_changed (w\<lparr>the_edge := e, writes := writes w @ [EdgeWrite name v]\<rparr>) name)"
| "PropertyBinding_property_changed w property_name =
     (case connection w of
        None \<Rightarrow> Inr w
      | Some c \<Rightarrow>
          if binding_listener_open c \<and> property_name = interval_property_name c
          then (case edge_getattr (the_edge w) (interval_property_name c) of
                  Inl e \<Rightarrow> Inl e
                | Inr PyNone \<Rightarrow> if target_setter_set c then update_interval w None else Inr w
                | Inr value \<Rightarrow>
                    if target_setter_set c
                    then (case convert c value of
                            Inl e \<Rightarrow> Inl e
                          | Inr converted \<Rightarrow> update_interval w (Some converted))
                    else Inr w)
          else Inr w)"
| "update_interval w interval = IntervalGraphic_set_interval w interval"
  by pat_completeness auto
termination
  by (relation "measure (\<lambda>x. case x of
          Inl (Inl (w, v)) \<Rightarrow> chain_level w + 2
        | Inl (Inr (Inl (w, n))) \<Rightarrow> chain_level w + 1
        | Inl (Inr (Inr (w, v))) \<Rightarrow> chain_level w + 6
        | Inr (Inl (w, n, v)) \<Rightarrow> chain_level w + 5
        | Inr (Inr (Inl (w, n))) \<Rightarrow> chain_level w + 4
        | Inr (Inr (Inr (w, v))) \<Rightarrow> chain_level w + 3)")
     (auto simp: chain_level_def)

declare IntervalGraphic_set_interval.simps [simp del] update_eels_interval.simps [simp del]
  Binding_update_source.simps [simp del] EELSEdge_setattr.simps [simp del]
  PropertyBinding_property_changed.simps [simp del] update_interval.simps [simp del]

lemmas connection_calls =
  IntervalGraphic_set_interval.simps update_eels_interval.simps Binding_update_source.simps
  EELSEdge_setattr.simps PropertyBinding_property_changed.simps update_interval.simps

text \<open>A world to run the connection in: 2048 samples, one eV per sample from 0, the edge with
  signal interval 400..420, and a graphic drawn over the whole display.\<close>

definition identity_calibration :: calibration where
  "identity_calibration =
     \<lparr>convert_to_calibrated_value = (\<lambda>x. x), convert_from_calibrated_value = (\<lambda>x. x)\<rparr>"

definition unbound_world :: "(string, string) connection_world" where
  "unbound_world =
     \<lparr>the_edge = example_edge, graphic_interval = Some (0, 1), connection = None,
      next_obj_id = 1, writes = []\<rparr>"

definition bound_world :: "(string, string) connection_world" where
  "bound_world =
     IntervalConnection_init unbound_world 2048 identity_calibration ''signal_eels_interval''"

section \<open>IntervalListConnection\<close>

text \<open>
  The connection between the fit intervals of an edge and the list of fit graphics. A
  graphic is a reference; its \<open>interval\<close> property is read through \<open>lw_interval\<close>. The list
  \<open>lw_graphics\<close> is the list object \<open>fit_interval_graphics\<close> that the display and the
  connection share. A listener made by \<open>functools.partial(handler, index)\<close> on a graphic's
  event is the graphic it listens to and the index bound at that time; the two listener
  lists hold the listeners that have not been closed. \<open>lw_calls\<close> logs every call of an edge
  mutator and every assignment of a graphic's interval, in order.
\<close>

record listener =
  target :: nat
  bound_index :: int

datatype logged_call =
    Edge_insert int EELSInterval
  | Edge_remove int
  | Edge_set int EELSInterval
  | Graphic_set nat "(real \<times> real) option"

record ('u, 'sh) list_world =
  lw_edge :: "('u, 'sh) EELSEdge"
  lw_graphics :: "nat list"
  lw_interval :: "nat \<Rightarrow> (real \<times> real) option"
  lw_property_changed_listeners :: "listener list"
  lw_about_to_be_removed_listeners :: "listener list"
  lw_blocked :: bool
  lw_remove_blocked :: bool
  lw_edge_listeners_open :: bool
  lw_data_len :: int
  lw_calibration :: calibration
  lw_display_graphics :: "nat list"
  lw_computation_objects :: "nat list"
  lw_next_graphic :: nat
  lw_next_obj_id :: nat
  lw_calls :: "logged_call list"

text \<open>
  Modelled from the spec: the events are the host's. Each graphic carries at most one
  property-changed listener and one about-to-be-deleted listener of this connection (the
  source registers them in a pair with the graphic), and firing a graphic's event calls the
  listener found for that graphic in the connection's list. Assigning a graphic's interval
  stores it and fires the graphic's property-changed notification; removing a graphic from
  the display item fires its about-to-be-deleted notification and takes it off the display
  and out of the computation's objects; removing a graphic that is not on the display does
  nothing (spec, section 7). Notifications are delivered synchronously, and an exception in
  a listener ends the run.
\<close>

definition listener_on :: "listener list \<Rightarrow> nat \<Rightarrow> listener option" where
  "listener_on ls g = find (\<lambda>l. target l = g) ls"

definition set_level :: "('u, 'sh) list_world \<Rightarrow> nat" where
  "set_level w = (if lw_blocked w then 0 else 4)"

text \<open>
  \<open>eels_edge.set_fit_eels_interval\<close> with its notification, the handler
  \<open>fit_eels_interval_value_changed\<close>, the graphic's interval setter, and the closure
  \<open>update_fit_eels_interval\<close>.
\<close>

function (sequential)
    set_fit_eels_interval_in ::
      "('u, 'sh) list_world \<Rightarrow> int \<Rightarrow> EELSInterval \<Rightarrow> error + ('u, 'sh) list_world"
and fit_eels_interval_value_changed ::
      "('u, 'sh) list_world \<Rightarrow> string \<Rightarrow> EELSInterval \<Rightarrow> int \<Rightarrow> error + ('u, 'sh) list_world"
and fit_graphic_set_interval ::
      "('u, 'sh) list_world \<Rightarrow> nat \<Rightarrow> (real \<times> real) option \<Rightarrow> error + ('u, 'sh) list_world"
and update_fit_eels_interval ::
      "('u, 'sh) list_world \<Rightarrow> int \<Rightarrow> string \<Rightarrow> error + ('u, 'sh) list_world"
where
  "set_fit_eels_interval_in w index interval =
     (case set_fit_eels_interval (lw_edge w) index interval of
        Inl e \<Rightarrow> Inl e
      | Inr (e, ns) \<Rightarrow>
          (let w = w\<lparr>lw_edge := e, lw_calls := lw_calls w @ [Edge_set index interval]\<rparr>
           in if lw_edge_listeners_open w
              then fit_eels_interval_value_changed w ''fit_eels_intervals'' interval index
              else Inr w))"
| "fit_eels_interval_value_changed w key fit_eels_interval index =
     (if key = ''fit_eels_intervals''
      then (case to_fractional_interval fit_eels_interval (lw_data_len w) (lw_calibration w) of
              Inl e \<Rightarrow> Inl e
            | Inr v \<Rightarrow>
                (case py_getitem (lw_graphics w) index of
                   Inl e \<Rightarrow> Inl e
                 | Inr g \<Rightarrow> fit_graphic_set_interval w g (Some v)))
      else Inr w)"
| "fit_graphic_set_interval w g v =
     (let w = w\<lparr>lw_interval := (lw_interval w)(g := v), lw_calls := lw_calls w @ [Graphic_set g v]\<rparr>
      in case listener_on (lw_property_changed_listeners w) g of
           None \<Rightarrow> Inr w
         | Some l \<Rightarrow> update_fit_eels_interval w (bound_index l) ''interval'')"
| "update_fit_eels_interval w index property_name =
     (if property_name = ''interval'' \<and> \<not> lw_blocked w
      then (let w = w\<lparr>lw_blocked := True\<rparr>
            in case py_getitem (lw_graphics w) index of
                 Inl e \<Rightarrow> Inl e
               | Inr g \<Rightarrow>
                   (case from_fractional_interval (lw_next_obj_id w) (lw_data_len w)
                           (lw_calibration w) (lw_interval w g) of
                      Inl e \<Rightarrow> Inl e
                    | Inr x \<Rightarrow>
                        (case set_fit_eels_interval_in (w\<lparr>lw_next_obj_id := Suc (lw_next_obj_id w)\<rparr>)
                                index x of
                           Inl e \<Rightarrow> Inl e
                         | Inr w \<Rightarrow> Inr (w\<lparr>lw_blocked := False\<rparr>))))
      else Inr w)"
  by pat_completeness auto
termination
  by (relation "measure (\<lambda>x. case x of
          Inl (Inl (w, i, x)) \<Rightarrow> set_level w + 4
        | Inl (Inr (w, k, x, i)) \<Rightarrow> set_level w + 3
        | Inr (Inl (w, g, v)) \<Rightarrow> set_level w + 2
        | Inr (Inr (w, i, n)) \<Rightarrow> set_level w + 1)")
     (auto simp: set_level_def)

declare set_fit_eels_interval_in.simps [simp del] fit_eels_interval_value_changed.simps [simp del]
  fit_graphic_set_interval.simps [simp del] update_fit_eels_interval.simps [simp del]

lemmas set_calls =
  set_fit_eels_interval_in.simps fit_eels_interval_value_changed.simps
  fit_graphic_set_interval.simps update_fit_eels_interval.simps

text \<open>
  \<open>eels_edge.remove_fit_eels_interval\<close> with its notification, the handler
  \<open>fit_eels_interval_removed\<close>, the display item's \<open>remove_graphic\<close>, and the closure
  \<open>remove_fit_eels_interval\<close> that listens to a graphic about to be deleted.
\<close>

definition drop_listeners :: "('u, 'sh) list_world \<Rightarrow> int \<Rightarrow> error + ('u, 'sh) list_world" where
  "drop_listeners w index =
     (case py_delitem (lw_property_changed_listeners w) index of
        Inl e \<Rightarrow> Inl e
      | Inr pcs \<Rightarrow>
          (case py_delitem (lw_about_to_be_removed_listeners w) index of
             Inl e \<Rightarrow> Inl e
           | Inr rms \<Rightarrow>
               Inr (w\<lparr>lw_property_changed_listeners := pcs,
                       lw_about_to_be_removed_listeners := rms\<rparr>)))"

definition drop_graphic :: "('u, 'sh) list_world \<Rightarrow> int \<Rightarrow> error + ('u, 'sh) list_world" where
  "drop_graphic w index =
     (case py_delitem (lw_graphics w) index of
        Inl e \<Rightarrow> Inl e
      | Inr gs \<Rightarrow> Inr (w\<lparr>lw_graphics := gs\<rparr>))"

function (sequential)
    remove_fit_eels_interval_in ::
      "('u, 'sh) list_world \<Rightarrow> int \<Rightarrow> error + ('u, 'sh) list_world"
and fit_eels_interval_removed ::
      "('u, 'sh) list_world \<Rightarrow> string \<Rightarrow> EELSInterval \<Rightarrow> int \<Rightarrow> error + ('u, 'sh) list_world"
and display_remove_graphic ::
      "('u, 'sh) list_world \<Rightarrow> nat \<Rightarrow> error + ('u, 'sh) list_world"
and remove_fit_eels_interval_closure ::
      "('u, 'sh) list_world \<Rightarrow> int \<Rightarrow> error + ('u, 'sh) list_world"
where
  "remove_fit_eels_interval_in w index =
     (case remove_fit_eels_interval (lw_edge w) index of
        Inl e \<Rightarrow> Inl e
      | Inr (e, ns) \<Rightarrow>
          (let w = w\<lparr>lw_edge := e, lw_calls := lw_calls w @ [Edge_remove index]\<rparr>
           in if lw_edge_listeners_open w
              then (case ns of
                      [ItemRemoved key value i] \<Rightarrow> fit_eels_interval_removed w key value i
                    | _ \<Rightarrow> Inr w)
              else Inr w))"
| "fit_eels_interval_removed w key value index =
     (if key = ''fit_eels_intervals'' \<and> \<not> lw_remove_blocked w
      then (case drop_listeners w index of
              Inl e \<Rightarrow> Inl e
            | Inr w \<Rightarrow>
                (case py_getitem (lw_graphics w) index of
                   Inl e \<Rightarrow> Inl e
                 | Inr g \<Rightarrow>
                     (case display_remove_graphic w g of
                        Inl e \<Rightarrow> Inl e
                      | Inr w \<Rightarrow> drop_graphic w index)))
      else Inr w)"
| "display_remove_graphic w g =
     (if g \<in> set (lw_display_graphics w)
      then (case (case listener_on (lw_about_to_be_removed_listeners w) g of
                    None \<Rightarrow> Inr w
                  | Some l \<Rightarrow> remove_fit_eels_interval_closure w (bound_index l)) of
              Inl e \<Rightarrow> Inl e
            | Inr w \<Rightarrow>
                Inr (w\<lparr>lw_display_graphics := removeAll g (lw_display_graphics w),
                        lw_computation_objects := removeAll g (lw_computation_objects w)\<rparr>))
      else Inr w)"
| "remove_fit_eels_interval_closure w index =
     (case remove_fit_eels_interval_in (w\<lparr>lw_remove_blocked := True\<rparr>) index of
        Inl e \<Rightarrow> Inl e
      | Inr w \<Rightarrow>
          (case drop_listeners w index of
             Inl e \<Rightarrow> Inl e
           | Inr w \<Rightarrow>
               (case drop_graphic w index of
                  Inl e \<Rightarrow> Inl e
                | Inr w \<Rightarrow> Inr (w\<lparr>lw_remove_blocked := False\<rparr>))))"
  by pat_completeness auto
termination
  by (relation "measure (\<lambda>x. case x of
          Inl (Inl (w, i)) \<Rightarrow> (if lw_remove_blocked w then 2 else 8)
        | Inl (Inr (w, k, x, i)) \<Rightarrow> (if lw_remove_blocked w then 1 else 7)
        | Inr (Inl (w, g)) \<Rightarrow> (if lw_remove_blocked w then 4 else 6)
        | Inr (Inr (w, i)) \<Rightarrow> (if lw_remove_blocked w then 3 else 5))")
     (auto simp: drop_listeners_def split: sum.splits)

declare remove_fit_eels_interval_in.simps [simp del] fit_eels_interval_removed.simps [simp del]
  display_remove_graphic.simps [simp del] remove_fit_eels_interval_closure.simps [simp del]

lemmas remove_calls =
  remove_fit_eels_interval_in.simps fit_eels_interval_removed.simps
  display_remove_graphic.simps remove_fit_eels_interval_closure.simps

text \<open>
  \<open>eels_edge.insert_fit_eels_interval\<close> with its notification and the handler
  \<open>fit_eels_interval_inserted\<close>. A new \<open>IntervalGraphic\<close> gets the next free reference and
  the host's initial interval (0, 1).
\<close>

definition fit_eels_interval_inserted ::
  "('u, 'sh) list_world \<Rightarrow> string \<Rightarrow> EELSInterval \<Rightarrow> int \<Rightarrow> error + ('u, 'sh) list_world" where
  "fit_eels_interval_inserted w key fit_eels_interval before_index =
     (if key = ''fit_eels_intervals''
      then (let g = lw_next_graphic w;
                w = w\<lparr>lw_next_graphic := Suc g,
                       lw_interval := (lw_interval w)(g := Some (0, 1)),
                       lw_display_graphics := lw_display_graphics w @ [g],
                       lw_graphics := py_insert (lw_graphics w) before_index g\<rparr>
            in case to_fractional_interval fit_eels_interval (lw_data_len w) (lw_calibration w) of
                 Inl e \<Rightarrow> Inl e
               | Inr v \<Rightarrow>
                   (case fit_graphic_set_interval w g (Some v) of
                      Inl e \<Rightarrow> Inl e
                    | Inr w \<Rightarrow>
                        Inr (w\<lparr>lw_property_changed_listeners :=
                                  py_insert (lw_property_changed_listeners w) before_index
                                    \<lparr>target = g, bound_index = before_index\<rparr>,
                                lw_about_to_be_removed_listeners :=
                                  py_insert (lw_about_to_be_removed_listeners w) before_index
                                    \<lparr>target = g, bound_index = before_index\<rparr>,
                                lw_computation_objects :=
                                  py_insert (lw_computation_objects w) before_index g\<rparr>)))
      else Inr w)"

definition insert_fit_eels_interval_in ::
  "('u, 'sh) list_world \<Rightarrow> int \<Rightarrow> EELSInterval \<Rightarrow> error + ('u, 'sh) list_world" where
  "insert_fit_eels_interval_in w index interval =
     (let w = w\<lparr>lw_edge := fst (insert_fit_eels_interval (lw_edge w) index interval),
                lw_calls := lw_calls w @ [Edge_insert index interval]\<rparr>
      in if lw_edge_listeners_open w
         then fit_eels_interval_inserted w ''fit_eels_intervals'' interval index
         else Inr w)"

text \<open>\<open>IntervalListConnection.__init__\<close>: the three listeners of the edge, and for each graphic
  already in the list, in order, a listener pair bound to its position.\<close>

definition IntervalListConnection_init ::
  "('u, 'sh) list_world \<Rightarrow> int \<Rightarrow> calibration \<Rightarrow> ('u, 'sh) list_world" where
  "IntervalListConnection_init w data_len cal =
     w\<lparr>lw_data_len := data_len, lw_calibration := cal, lw_blocked := False,
       lw_remove_blocked := False, lw_edge_listeners_open := True,
       lw_property_changed_listeners :=
         map (\<lambda>(index, g). \<lparr>target = g, bound_index = int index\<rparr>) (enumerate_from 0 (lw_graphics w)),
       lw_about_to_be_removed_listeners :=
         map (\<lambda>(index, g). \<lparr>target = g, bound_index = int index\<rparr>) (enumerate_from 0 (lw_graphics w))\<rparr>"

text \<open>The list parallelism of the fit graphics and the fit intervals: the same length, and
  graphic \<open>i\<close> holds the fractional conversion of fit interval \<open>i\<close>.\<close>

definition parallel :: "('u, 'sh) list_world \<Rightarrow> bool" where
  "parallel w \<longleftrightarrow>
     list_all2 (\<lambda>g x. map_sum id Some (to_fractional_interval x (lw_data_len w) (lw_calibration w))
                        = Inr (lw_interval w g))
       (lw_graphics w) (fit_eels_intervals (lw_edge w))"

text \<open>A live connection in step with its lists: the edge listeners are open, no guard is
  set, the listener at each position listens to the graphic at that position, the graphics
  are distinct graphics of the display item, the interval objects are distinct, and the
  references and identities still to be given out are new.\<close>

definition aligned :: "('u, 'sh) list_world \<Rightarrow> bool" where
  "aligned w \<longleftrightarrow>
     lw_edge_listeners_open w \<and> \<not> lw_blocked w \<and> \<not> lw_remove_blocked w \<and> lw_data_len w > 0 \<and>
     map target (lw_property_changed_listeners w) = lw_graphics w \<and>
     map target (lw_about_to_be_removed_listeners w) = lw_graphics w \<and>
     distinct (lw_graphics w) \<and> set (lw_graphics w) \<subseteq> set (lw_display_graphics w) \<and>
     list_all (\<lambda>g. g < lw_next_graphic w) (lw_display_graphics w) \<and>
     distinct (map obj_id (fit_eels_intervals (lw_edge w))) \<and>
     list_all (\<lambda>x. obj_id x < lw_next_obj_id w) (fit_eels_intervals (lw_edge w))"

text \<open>
  The operations on the fit intervals of a shown edge, and sequences of them. An operation
  is admissible when its index is valid (removal, value change), its interval is an object
  that is not in the list yet, has an identity given out earlier and has both bounds
  (insertion, value change), and, for a value change, the listener of the graphic at the
  index is bound to an index in range.
\<close>

datatype edge_op = Insert_fit int EELSInterval | Remove_fit int | Set_fit int EELSInterval

definition apply_op :: "('u, 'sh) list_world \<Rightarrow> edge_op \<Rightarrow> error + ('u, 'sh) list_world" where
  "apply_op w op =
     (case op of
        Insert_fit i x \<Rightarrow> insert_fit_eels_interval_in w i x
      | Remove_fit i \<Rightarrow> remove_fit_eels_interval_in w i
      | Set_fit i x \<Rightarrow> set_fit_eels_interval_in w i x)"

fun apply_ops :: "('u, 'sh) list_world \<Rightarrow> edge_op list \<Rightarrow> error + ('u, 'sh) list_world" where
  "apply_ops w [] = Inr w"
| "apply_ops w (op # ops) = bind_err (apply_op w op) (\<lambda>w. apply_ops w ops)"

definition new_interval :: "('u, 'sh) list_world \<Rightarrow> EELSInterval \<Rightarrow> bool" where
  "new_interval w x \<longleftrightarrow>
     obj_id x \<notin> obj_id ` set (fit_eels_intervals (lw_edge w)) \<and> obj_id x < lw_next_obj_id w \<and>
     start_ev x \<noteq> None \<and> end_ev x \<noteq> None"

definition admissible :: "('u, 'sh) list_world \<Rightarrow> edge_op \<Rightarrow> bool" where
  "admissible w op =
     (case op of
        Insert_fit i x \<Rightarrow> new_interval w x
      | Remove_fit i \<Rightarrow> py_norm_index (fit_eels_intervals (lw_edge w)) i \<noteq> None
      | Set_fit i x \<Rightarrow>
          new_interval w x \<and>
          (case py_norm_index (fit_eels_intervals (lw_edge w)) i of
             None \<Rightarrow> False
           | Some j \<Rightarrow>
               py_norm_index (lw_graphics w) (bound_index (lw_property_changed_listeners w ! j)) \<noteq> None))"

fun admissible_ops :: "('u, 'sh) list_world \<Rightarrow> edge_op list \<Rightarrow> bool" where
  "admissible_ops w [] = True"
| "admissible_ops w (op # ops) =
     (admissible w op \<and> (case apply_op w op of Inl e \<Rightarrow> False | Inr w \<Rightarrow> admissible_ops w ops))"

text \<open>
  A shown edge without fit intervals, the three insertions that make its fit list
  \<open>[A, B, A]\<close> (the object \<open>A\<close> twice), the same followed by the removal at index 2, and
  a shown edge with the fit list \<open>[A]\<close> over the graphic 30.
\<close>

definition shown_empty :: "(string, string) list_world" where
  "shown_empty =
     IntervalListConnection_init
       \<lparr>lw_edge = edge_ABA\<lparr>fit_eels_intervals := []\<rparr>, lw_graphics = [],
        lw_interval = (\<lambda>g. None),
        lw_property_changed_listeners = [], lw_about_to_be_removed_listeners = [],
        lw_blocked = False, lw_remove_blocked = False, lw_edge_listeners_open = False,
        lw_data_len = 2048, lw_calibration = identity_calibration,
        lw_display_graphics = [], lw_computation_objects = [],
        lw_next_graphic = 30, lw_next_obj_id = 40, lw_calls = []\<rparr>
       2048 identity_calibration"

definition insert_A_B_A :: "('u, 'sh) list_world \<Rightarrow> error + ('u, 'sh) list_world" where
  "insert_A_B_A w =
     bind_err (insert_fit_eels_interval_in w 0 interval_A) (\<lambda>w.
     bind_err (insert_fit_eels_interval_in w 1 interval_B) (\<lambda>w.
     insert_fit_eels_interval_in w 2 interval_A))"

definition insert_A_B_A_remove_2 :: "('u, 'sh) list_world \<Rightarrow> error + ('u, 'sh) list_world" where
  "insert_A_B_A_remove_2 w = bind_err (insert_A_B_A w) (\<lambda>w. remove_fit_eels_interval_in w 2)"

definition lists_of ::
  "('u, 'sh) list_world \<Rightarrow> EELSInterval list \<times> nat list \<times> (real \<times> real) option list \<times> bool" where
  "lists_of w =
     (fit_eels_intervals (lw_edge w), lw_graphics w, map (lw_interval w) (lw_graphics w), parallel w)"

definition world_A :: "(string, string) list_world" where
  "world_A =
     IntervalListConnection_init
       \<lparr>lw_edge = edge_ABA\<lparr>fit_eels_intervals := [interval_A]\<rparr>, lw_graphics = [30],
        lw_interval = (\<lambda>g. Some (25/512, 55/1024)),
        lw_property_changed_listeners = [], lw_about_to_be_removed_listeners = [],
        lw_blocked = False, lw_remove_blocked = False, lw_edge_listeners_open = False,
        lw_data_len = 2048, lw_calibration = identity_calibration,
        lw_display_graphics = [30], lw_computation_objects = [30],
        lw_next_graphic = 31, lw_next_obj_id = 40, lw_calls = []\<rparr>
       2048 identity_calibration"

section \<open>Setting the shell\<close>

lemma set_electron_shell_effect:
  "electron_shell (fst (set_electron_shell e v)) = electron_shell e \<and>
   signal_eels_interval (fst (set_electron_shell e v)) = v \<and>
   fit_eels_intervals (fst (set_electron_shell e v)) = fit_eels_intervals e \<and>
   snd (set_electron_shell e v) = [PropertyChanged ''electron_shell'']"
  by (simp add: set_electron_shell_def)

text \<open>
  C1. The claim: after \<open>e.electron_shell = s\<close> the getter returns \<open>s\<close> and the signal interval is
  unchanged, with one property-changed notification. On the edge with signal interval
  400..420 and no shell, assigning the shell \<open>K\<close> leaves the \<open>electron_shell\<close> getter at \<open>None\<close>
  and replaces the signal interval by the shell; the single notification is emitted.
\<close>

theorem electron_shell_setter_at_example:
  "electron_shell (fst (set_electron_shell example_edge (ShellObj ''K''))) = None \<and>
   signal_eels_interval (fst (set_electron_shell example_edge (ShellObj ''K''))) = ShellObj ''K'' \<and>
   signal_eels_interval (fst (set_electron_shell example_edge (ShellObj ''K'')))
     \<noteq> signal_eels_interval example_edge \<and>
   snd (set_electron_shell example_edge (ShellObj ''K'')) = [PropertyChanged ''electron_shell'']"
  by (simp add: set_electron_shell_def example_edge_def)

section \<open>Removing a fit interval\<close>

text \<open>When the interval objects of the list are pairwise distinct, the element removed is the
  one at the index.\<close>

lemma py_remove_distinct:
  "distinct (map obj_id xs) \<Longrightarrow> j < length xs \<Longrightarrow>
   py_remove EELSInterval_eq (xs ! j) xs = Inr (take j xs @ drop (Suc j) xs)"
proof (induction xs arbitrary: j)
  case Nil
  then show ?case by simp
next
  case (Cons y ys)
  show ?case
  proof (cases j)
    case 0
    then show ?thesis by (simp add: EELSInterval_eq_def)
  next
    case (Suc k)
    with Cons.prems have k: "k < length ys" and d: "distinct (map obj_id ys)"
      and ne: "obj_id y \<noteq> obj_id (ys ! k)"
      by (auto simp: image_iff)
    from Cons.IH [OF d k] Suc ne show ?thesis
      by (simp add: EELSInterval_eq_def)
  qed
qed

lemma py_norm_index_less: "py_norm_index xs i = Some j \<Longrightarrow> j < length xs"
  by (auto simp: py_norm_index_def split: if_splits)

lemma remove_fit_eels_interval_distinct:
  assumes "distinct (map obj_id (fit_eels_intervals e))"
    and "py_norm_index (fit_eels_intervals e) i = Some j"
  shows "remove_fit_eels_interval e i
           = Inr (e\<lparr>fit_eels_intervals := take j (fit_eels_intervals e) @ drop (Suc j) (fit_eels_intervals e)\<rparr>,
                  [ItemRemoved ''fit_eels_intervals'' (fit_eels_intervals e ! j) i])"
  using assms py_remove_distinct [OF assms(1) py_norm_index_less [OF assms(2)]]
  by (simp add: remove_fit_eels_interval_def py_getitem_def)

text \<open>
  C8. The claim: \<open>remove_fit_eels_interval(i)\<close> removes exactly the element at position \<open>i\<close>, also
  when the same interval object occurs at several positions. On the list \<open>[A, B, A]\<close> (the
  object \<open>A\<close> twice) and \<open>i = 2\<close> the code removes position 0: the list becomes \<open>[B, A]\<close>, not
  \<open>[A, B]\<close>, while the notification carries index 2.
\<close>

theorem remove_fit_eels_interval_at_duplicate:
  "map_sum id (\<lambda>(e, ns). (fit_eels_intervals e, ns)) (remove_fit_eels_interval edge_ABA 2)
     = Inr ([interval_B, interval_A], [ItemRemoved ''fit_eels_intervals'' interval_A 2]) \<and>
   [interval_B, interval_A] \<noteq> [interval_A, interval_B]"
  by (simp add: remove_fit_eels_interval_def edge_ABA_def py_getitem_def py_norm_index_def
      EELSInterval_eq_def interval_A_def interval_B_def)

section \<open>Serialization\<close>

lemma from_d_write_bounds:
  "start_ev (from_d ext k (Some (IntervalDict (EELSInterval_write_to_dict i)))) = start_ev i \<and>
   end_ev (from_d ext k (Some (IntervalDict (EELSInterval_write_to_dict i)))) = end_ev i"
  by (cases "start_ev i"; cases "end_ev i")
     (simp_all add: from_d_def EELSInterval_write_to_dict_def or_dict_def dict_bool_def dict_get_def)

lemma from_d_None:
  "from_d ext k None = \<lparr>obj_id = k, start_ev = None, end_ev = None\<rparr>"
  by (simp add: from_d_def or_dict_def dict_get_def)

lemma map_from_d_write:
  "length ks = length xs \<Longrightarrow>
   map start_ev (map (\<lambda>(k, d). from_d ext k (Some (IntervalDict d)))
                   (zip ks (map EELSInterval_write_to_dict xs))) = map start_ev xs \<and>
   map end_ev (map (\<lambda>(k, d). from_d ext k (Some (IntervalDict d)))
                 (zip ks (map EELSInterval_write_to_dict xs))) = map end_ev xs"
  by (induction ks xs rule: list_induct2) (simp_all add: from_d_write_bounds)

text \<open>
  C10. When the key \<open>signal_eels_interval\<close> is absent from the serialized edge (or maps to
  \<open>None\<close>, which \<open>d.get\<close> reads the same way), \<open>EELSEdge(d=d)\<close> either fails in one of the two
  calls it makes outside the module (parsing the UUID, reading the shell) or returns an edge
  whose signal interval is an \<open>EELSInterval\<close> object with both bounds absent, never \<open>None\<close>.
\<close>

theorem init_without_signal_key:
  assumes "d_signal_eels_interval d = None"
  shows "case EELSEdge_init ext u1 u2 n sig fits shell (Some d) of
           Inl err \<Rightarrow> UUID ext (case d_uuid d of None \<Rightarrow> str_of_UUID ext u2 | Some s \<Rightarrow> s) = None
                       \<or> ElectronShell_from_d ext (d_electron_shell d) = Inl err
         | Inr e \<Rightarrow> signal_eels_interval e = IntervalObj \<lparr>obj_id = n, start_ev = None, end_ev = None\<rparr>
                    \<and> signal_eels_interval e \<noteq> PyNone"
  using assms
  by (auto simp: EELSEdge_init_def from_d_None Let_def split: option.splits sum.splits)

theorem init_without_signal_key_witness:
  "d_signal_eels_interval dict_without_signal = None \<and>
   EELSEdge_init example_externals ''r1'' ''r2'' 7 None None None (Some dict_without_signal)
     = Inr \<lparr>uuid = ''e3'',
            signal_eels_interval = IntervalObj \<lparr>obj_id = 7, start_ev = None, end_ev = None\<rparr>,
            fit_eels_intervals = [], electron_shell = None\<rparr>"
  using init_without_signal_key [where d = dict_without_signal and ext = example_externals
      and ?u1.0 = "''r1''" and ?u2.0 = "''r2''" and n = 7 and sig = None and fits = None and shell = None]
  by (simp add: dict_without_signal_def EELSEdge_init_def example_externals_def from_d_None
      enumerate_from_def)

text \<open>
  C7, as claimed, at an edge whose signal interval is \<open>None\<close>: the edge writes no
  \<open>signal_eels_interval\<close> key, and reconstruction from that dictionary gives an edge whose
  signal interval is an empty \<open>EELSInterval\<close> object, so absence is not preserved.
\<close>

theorem roundtrip_loses_absent_signal:
  "signal_eels_interval edge_without_signal = PyNone \<and>
   EELSEdge_write_to_dict example_externals edge_without_signal = Inr dict_without_signal \<and>
   map_sum id signal_eels_interval
     (EELSEdge_init example_externals ''r1'' ''r2'' 7 None None None (Some dict_without_signal))
     = Inr (IntervalObj \<lparr>obj_id = 7, start_ev = None, end_ev = None\<rparr>)"
  by (simp add: edge_without_signal_def dict_without_signal_def EELSEdge_write_to_dict_def
      write_signal_key_def bind_err_def
      EELSEdge_init_def example_externals_def pyobj_bool_def from_d_None enumerate_from_def)

text \<open>
  C7, amended. Let the edge hold an interval or \<open>None\<close> as its signal interval, let its UUID
  parse back from its string, and let its shell (when it has one) be true and read back from
  the dictionary it writes, \<open>None\<close> being read as no shell. Then \<open>_write_to_dict\<close> returns a
  dictionary and \<open>EELSEdge(d=...)\<close> of it returns an edge with the same UUID, the same bounds
  on every fit interval (an absent bound stays absent), the same shell, and: the same bounds
  on the signal interval when the edge had one, an empty interval object when it had \<open>None\<close>.
\<close>

theorem write_then_init:
  assumes uu: "UUID ext (str_of_UUID ext (uuid e)) = Some (uuid e)"
    and sh0: "ElectronShell_from_d ext None = Inr None"
    and sh1: "case electron_shell e of
                None \<Rightarrow> True
              | Some s \<Rightarrow> ElectronShell_bool ext s \<and>
                  ElectronShell_from_d ext (Some (ElectronShell_write_to_dict ext s)) = Inr (Some s)"
    and ty: "case signal_eels_interval e of ShellObj s \<Rightarrow> False | _ \<Rightarrow> True"
  shows "\<exists>d e'. EELSEdge_write_to_dict ext e = Inr d \<and>
           EELSEdge_init ext u1 u2 n sig fits shell (Some d) = Inr e' \<and>
           uuid e' = uuid e \<and>
           map start_ev (fit_eels_intervals e') = map start_ev (fit_eels_intervals e) \<and>
           map end_ev (fit_eels_intervals e') = map end_ev (fit_eels_intervals e) \<and>
           electron_shell e' = electron_shell e \<and>
           (case signal_eels_interval e of
              IntervalObj i \<Rightarrow> (\<exists>i'. signal_eels_interval e' = IntervalObj i' \<and>
                                   start_ev i' = start_ev i \<and> end_ev i' = end_ev i)
            | _ \<Rightarrow> signal_eels_interval e' = IntervalObj \<lparr>obj_id = n, start_ev = None, end_ev = None\<rparr>)"
proof -
  have len: "length [Suc n ..< Suc n + length (fit_eels_intervals e)] = length (fit_eels_intervals e)"
    by (metis add_diff_cancel_left' length_upt)
  note fits = map_from_d_write [OF len, of ext]
  show ?thesis
  proof (cases "signal_eels_interval e")
    case PyNone
    show ?thesis
      using uu sh0 sh1 fits PyNone
      by (cases "electron_shell e")
         (auto simp: EELSEdge_write_to_dict_def write_signal_key_def bind_err_def
            EELSEdge_init_def pyobj_bool_def Let_def enumerate_from_def from_d_None)
  next
    case (IntervalObj i)
    show ?thesis
      using uu sh0 sh1 fits IntervalObj from_d_write_bounds [of ext n i]
      by (cases "electron_shell e")
         (auto simp: EELSEdge_write_to_dict_def write_signal_key_def bind_err_def
            EELSEdge_init_def pyobj_bool_def pyobj_write_to_dict_def Let_def enumerate_from_def)
  next
    case (ShellObj s)
    with ty show ?thesis by simp
  qed
qed

theorem write_then_init_witness:
  "\<exists>d e'. EELSEdge_write_to_dict example_externals edge_with_gaps = Inr d \<and>
     EELSEdge_init example_externals ''r1'' ''r2'' 30 None None None (Some d) = Inr e' \<and>
     uuid e' = ''e4'' \<and>
     map start_ev (fit_eels_intervals e') = [None, None, Some 430] \<and>
     map end_ev (fit_eels_intervals e') = [Some 390, None, Some 450] \<and>
     electron_shell e' = Some ''K'' \<and>
     (\<exists>i'. signal_eels_interval e' = IntervalObj i' \<and> start_ev i' = Some 400 \<and> end_ev i' = None)"
  using write_then_init [where ext = example_externals and e = edge_with_gaps
      and ?u1.0 = "''r1''" and ?u2.0 = "''r2''" and n = 30 and sig = None and fits = None and shell = None]
  by (simp add: edge_with_gaps_def example_externals_def)

section \<open>Reconstruction of a quantification display\<close>




lemma read_only_orphans:
  "list_all (\<lambda>(d, r). case UUID ext (case d of None \<Rightarrow> str_of_UUID ext r | Some s \<Rightarrow> s) of
                        None \<Rightarrow> False | Some u \<Rightarrow> computation_map u = None) ds \<Longrightarrow>
   edge_displays_loop ext eels_edges ds computation_map acc = Inr acc"
  by (induction ds) (auto split: option.splits)

section \<open>Hiding an edge display\<close>

lemma bind_err_Inr: "bind_err r f = Inr y \<longleftrightarrow> (\<exists>x. r = Inr x \<and> f x = Inr y)"
  by (cases r) (simp_all add: bind_err_def)

lemma fold_close_listener:
  "data_items (fold close_listener xs m) = data_items m \<and>
   computations (fold close_listener xs m) = computations m \<and>
   display_graphics (fold close_listener xs m) = display_graphics m \<and>
   set (listening (fold close_listener xs m)) = set (listening m) - set xs"
  by (induction xs arbitrary: m) (auto simp: close_listener_def)

lemma close_if_set_fields:
  "data_items (close_if_set l m) = data_items m \<and>
   computations (close_if_set l m) = computations m \<and>
   display_graphics (close_if_set l m) = display_graphics m \<and>
   set (listening (close_if_set l m)) = set (listening m) - set_option l"
  by (cases l) (auto simp: close_if_set_def close_listener_def)

lemma IntervalListConnection_close_Inr:
  assumes "IntervalListConnection_close c m = Inr m1"
  shows "data_items m1 = data_items m \<and> computations m1 = computations m \<and>
         display_graphics m1 = display_graphics m \<and>
         set (listening m1) = set (listening m)
           - set_option (item_inserted_event_listener c) - set_option (item_removed_event_listener c)
           - set_option (item_value_changed_event_listener c)
           - set (case fit_interval_graphic_property_changed_listeners c of None \<Rightarrow> [] | Some ls \<Rightarrow> ls)
           - set (case fit_interval_graphic_about_to_be_removed_listeners c of None \<Rightarrow> [] | Some ls \<Rightarrow> ls)"
  using assms
  by (auto simp: IntervalListConnection_close_def bind_err_Inr close_or_raise_def close_each_def
      close_listener_def fold_close_listener split: option.splits)

lemma hide_signal_interval_connection_Inr:
  assumes "hide_signal_interval_connection p = Inr q"
  shows "fst q = (fst p)\<lparr>signal_interval_connection := None\<rparr> \<and>
         data_items (snd q) = data_items (snd p) \<and> computations (snd q) = computations (snd p) \<and>
         display_graphics (snd q) = display_graphics (snd p) \<and>
         set (listening (snd q)) = set (listening (snd p)) -
           set (case signal_interval_connection (fst p) of None \<Rightarrow> []
                | Some c \<Rightarrow> (case interval_graphic_listener c of None \<Rightarrow> [] | Some l \<Rightarrow> [l]) @
                            (case interval_binding c of None \<Rightarrow> [] | Some l \<Rightarrow> [l]))"
  using assms
  by (cases "signal_interval_connection (fst p)")
     (auto simp: hide_signal_interval_connection_def IntervalConnection_close_def close_if_set_fields
        split: option.splits)

lemma hide_interval_list_connection_Inr:
  assumes "hide_interval_list_connection p = Inr q"
  shows "fst q = (fst p)\<lparr>interval_list_connection := None\<rparr> \<and>
         data_items (snd q) = data_items (snd p) \<and> computations (snd q) = computations (snd p) \<and>
         display_graphics (snd q) = display_graphics (snd p) \<and>
         set (listening (snd q)) = set (listening (snd p)) -
           set (case interval_list_connection (fst p) of None \<Rightarrow> []
      | Some c \<Rightarrow> (case item_inserted_event_listener c of None \<Rightarrow> [] | Some l \<Rightarrow> [l]) @
                  (case item_removed_event_listener c of None \<Rightarrow> [] | Some l \<Rightarrow> [l]) @
                  (case item_value_changed_event_listener c of None \<Rightarrow> [] | Some l \<Rightarrow> [l]) @
                  (case fit_interval_graphic_property_changed_listeners c of None \<Rightarrow> [] | Some ls \<Rightarrow> ls) @
                  (case fit_interval_graphic_about_to_be_removed_listeners c of None \<Rightarrow> [] | Some ls \<Rightarrow> ls))"
proof (cases "interval_list_connection (fst p)")
  case None
  with assms show ?thesis by (auto simp: hide_interval_list_connection_def)
next
  case (Some c)
  with assms obtain m1 where m1: "IntervalListConnection_close c (snd p) = Inr m1"
    and q: "q = ((fst p)\<lparr>interval_list_connection := None\<rparr>, m1)"
    by (auto simp: hide_interval_list_connection_def bind_err_Inr)
  from IntervalListConnection_close_Inr [OF m1] q Some show ?thesis
    by (auto split: option.splits)
qed


lemma hide_signal_interval_about_to_close_connection_Inr:
  assumes "hide_signal_interval_about_to_close_connection p = Inr q"
  shows "fst q = (fst p)\<lparr>signal_interval_about_to_close_connection := None\<rparr> \<and>
         data_items (snd q) = data_items (snd p) \<and> computations (snd q) = computations (snd p) \<and>
         display_graphics (snd q) = display_graphics (snd p) \<and>
         set (listening (snd q)) = set (listening (snd p)) -
           set (case signal_interval_about_to_close_connection (fst p) of None \<Rightarrow> [] | Some l \<Rightarrow> [l])"
  using assms
  by (cases "signal_interval_about_to_close_connection (fst p)")
     (auto simp: hide_signal_interval_about_to_close_connection_def close_listener_def)

lemma hide_computation_about_to_close_connection_Inr:
  assumes "hide_computation_about_to_close_connection p = Inr q"
  shows "fst q = (fst p)\<lparr>computation_about_to_close_connection := None\<rparr> \<and>
         data_items (snd q) = data_items (snd p) \<and> computations (snd q) = computations (snd p) \<and>
         display_graphics (snd q) = display_graphics (snd p) \<and>
         set (listening (snd q)) = set (listening (snd p)) -
           set (case computation_about_to_close_connection (fst p) of None \<Rightarrow> [] | Some l \<Rightarrow> [l])"
  using assms
  by (cases "computation_about_to_close_connection (fst p)")
     (auto simp: hide_computation_about_to_close_connection_def close_listener_def)

lemma hide_computation_Inr:
  assumes "hide_computation p = Inr q"
  shows "fst q = (fst p)\<lparr>computation := None\<rparr> \<and>
         set (data_items (snd q)) \<subseteq> set (data_items (snd p)) \<and>
         display_graphics (snd q) = display_graphics (snd p) \<and>
         listening (snd q) = listening (snd p)"
  using assms
  by (cases "computation (fst p)")
     (auto simp: hide_computation_def remove_computation_def split: if_splits)

lemma remove_graphic_fields:
  "data_items (remove_graphic g m) = data_items m \<and> listening (remove_graphic g m) = listening m \<and>
   computations (remove_graphic g m) = computations m"
  by (simp add: remove_graphic_def)

lemma hide_signal_interval_graphic_Inr:
  assumes "hide_signal_interval_graphic p = Inr q"
  shows "fst q = (fst p)\<lparr>signal_interval_graphic := None\<rparr> \<and>
         data_items (snd q) = data_items (snd p) \<and>
         listening (snd q) = listening (snd p)"
  using assms
  by (cases "signal_interval_graphic (fst p)")
     (auto simp: hide_signal_interval_graphic_def remove_graphic_fields)

lemma remove_graphics_fields:
  "data_items (remove_graphics gs m) = data_items m \<and>
   listening (remove_graphics gs m) = listening m \<and>
   computations (remove_graphics gs m) = computations m"
  by (induction gs arbitrary: m) (simp_all add: remove_graphic_fields)

lemma hide_fit_interval_graphics_Inr:
  assumes "hide_fit_interval_graphics p = Inr q"
  shows "fst q = (fst p)\<lparr>fit_interval_graphics := []\<rparr> \<and>
         data_items (snd q) = data_items (snd p) \<and>
         listening (snd q) = listening (snd p)"
  using assms
  by (auto simp: hide_fit_interval_graphics_def remove_graphics_fields)

lemma hide_background_data_item_Inr:
  assumes "hide_background_data_item p = Inr q"
  shows "fst q = (fst p)\<lparr>background_data_item := background_data_item (fst q)\<rparr> \<and>
         (case background_data_item (fst q) of None \<Rightarrow> True | Some i \<Rightarrow> i \<notin> set (data_items (snd q))) \<and>
         set (data_items (snd q)) \<subseteq> set (data_items (snd p)) \<and>
         listening (snd q) = listening (snd p)"
  using assms
  by (cases "background_data_item (fst p)")
     (auto simp: hide_background_data_item_def remove_data_item_def split: if_splits)

lemma hide_signal_data_item_Inr:
  assumes "hide_signal_data_item p = Inr q"
  shows "fst q = (fst p)\<lparr>signal_data_item := signal_data_item (fst q)\<rparr> \<and>
         (case signal_data_item (fst q) of None \<Rightarrow> True | Some i \<Rightarrow> i \<notin> set (data_items (snd q))) \<and>
         set (data_items (snd q)) \<subseteq> set (data_items (snd p)) \<and>
         listening (snd q) = listening (snd p)"
  using assms
  by (cases "signal_data_item (fst p)")
     (auto simp: hide_signal_data_item_def remove_data_item_def split: if_splits)

lemma hide_Inr:
  assumes "hide d m = Inr (d1, m1)"
  shows "hidden d1 m1 \<and> set (listening m1) \<inter> set (display_listeners d) = {} \<and>
         set (listening m1) \<subseteq> set (listening m) \<and> eels_edge d1 = eels_edge d"
proof -
  from assms obtain p1 p2 p3 p4 p5 p6 p7 p8 where
    s1: "hide_signal_interval_connection (d, m) = Inr p1" and
    s2: "hide_interval_list_connection p1 = Inr p2" and
    s3: "hide_signal_interval_about_to_close_connection p2 = Inr p3" and
    s4: "hide_computation_about_to_close_connection p3 = Inr p4" and
    s5: "hide_computation p4 = Inr p5" and
    s6: "hide_signal_interval_graphic p5 = Inr p6" and
    s7: "hide_fit_interval_graphics p6 = Inr p7" and
    s8: "hide_background_data_item p7 = Inr p8" and
    s9: "hide_signal_data_item p8 = Inr (d1, m1)"
    unfolding hide_def bind_err_Inr by blast
  note f1 = hide_signal_interval_connection_Inr [OF s1] and f2 = hide_interval_list_connection_Inr [OF s2] and f3 = hide_signal_interval_about_to_close_connection_Inr [OF s3] and f4 = hide_computation_about_to_close_connection_Inr [OF s4]
    and f5 = hide_computation_Inr [OF s5] and f6 = hide_signal_interval_graphic_Inr [OF s6] and f7 = hide_fit_interval_graphics_Inr [OF s7] and f8 = hide_background_data_item_Inr [OF s8]
    and f9 = hide_signal_data_item_Inr [OF s9]
  have d1: "d1 = d\<lparr>signal_interval_connection := None, interval_list_connection := None,
                   signal_interval_about_to_close_connection := None,
                   computation_about_to_close_connection := None, computation := None,
                   signal_interval_graphic := None, fit_interval_graphics := [],
                   background_data_item := background_data_item (fst p8),
                   signal_data_item := signal_data_item d1\<rparr>"
    using f1 f2 f3 f4 f5 f6 f7 f8 f9 by simp
  have bg: "background_data_item d1 = background_data_item (fst p8)"
    by (subst d1) simp
  have sub: "set (data_items m1) \<subseteq> set (data_items (snd p8))"
    using f9 by simp
  have h: "hidden d1 m1"
    unfolding hidden_def
    using f8 f9 sub bg
    by (subst (1 2 3 4 5 6 7) d1) (auto split: option.splits)
  have l1: "set (listening (snd p4)) \<inter> set (display_listeners d) = {}"
    using f1 f2 f3 f4 by (auto simp: display_listeners_def)
  have l2: "listening m1 = listening (snd p4)"
    using f5 f6 f7 f8 f9 by simp
  have l3: "set (listening (snd p4)) \<subseteq> set (listening m)"
    using f1 f2 f3 f4 by auto
  have e: "eels_edge d1 = eels_edge d"
    by (subst d1) simp
  from h l1 l2 l3 e show ?thesis by simp
qed

lemma hide_hidden:
  assumes "hidden d m"
  shows "hide d m = Inr (d, m)"
  using assms
  by (auto simp: hidden_def hide_def bind_err_def hide_signal_interval_connection_def
      hide_interval_list_connection_def hide_signal_interval_about_to_close_connection_def
      hide_computation_about_to_close_connection_def hide_computation_def
      hide_signal_interval_graphic_def hide_fit_interval_graphics_def
      hide_background_data_item_def hide_signal_data_item_def split: option.splits)


text \<open>Only the list connection can make \<open>hide\<close> raise, and only when it was closed before.\<close>

lemma hide_returns:
  assumes "interval_list_connection_open d"
  shows "\<exists>q. hide d m = Inr q"
proof -
  have "\<exists>p1. hide_signal_interval_connection (d, m) = Inr p1"
    by (simp add: hide_signal_interval_connection_def split: option.splits)
  then obtain p1 where s1: "hide_signal_interval_connection (d, m) = Inr p1" ..
  note f1 = hide_signal_interval_connection_Inr [OF s1]
  have "\<exists>p2. hide_interval_list_connection p1 = Inr p2"
    using assms f1
    by (auto simp: interval_list_connection_open_def hide_interval_list_connection_def
        IntervalListConnection_close_def bind_err_def close_or_raise_def close_each_def
        split: option.splits)
  then obtain p2 where s2: "hide_interval_list_connection p1 = Inr p2" ..
  have "\<exists>p3. hide_signal_interval_about_to_close_connection p2 = Inr p3"
    by (simp add: hide_signal_interval_about_to_close_connection_def split: option.splits)
  then obtain p3 where s3: "hide_signal_interval_about_to_close_connection p2 = Inr p3" ..
  have "\<exists>p4. hide_computation_about_to_close_connection p3 = Inr p4"
    by (simp add: hide_computation_about_to_close_connection_def split: option.splits)
  then obtain p4 where s4: "hide_computation_about_to_close_connection p3 = Inr p4" ..
  have "\<exists>p5. hide_computation p4 = Inr p5"
    by (simp add: hide_computation_def split: option.splits)
  then obtain p5 where s5: "hide_computation p4 = Inr p5" ..
  have "\<exists>p6. hide_signal_interval_graphic p5 = Inr p6"
    by (simp add: hide_signal_interval_graphic_def split: option.splits)
  then obtain p6 where s6: "hide_signal_interval_graphic p5 = Inr p6" ..
  have "\<exists>p7. hide_fit_interval_graphics p6 = Inr p7"
    by (simp add: hide_fit_interval_graphics_def)
  then obtain p7 where s7: "hide_fit_interval_graphics p6 = Inr p7" ..
  have "\<exists>p8. hide_background_data_item p7 = Inr p8"
    by (simp add: hide_background_data_item_def split: option.splits)
  then obtain p8 where s8: "hide_background_data_item p7 = Inr p8" ..
  have "\<exists>p9. hide_signal_data_item p8 = Inr p9"
    by (simp add: hide_signal_data_item_def split: option.splits)
  then obtain p9 where s9: "hide_signal_data_item p8 = Inr p9" ..
  from s1 s2 s3 s4 s5 s6 s7 s8 s9 show ?thesis
    by (simp add: hide_def bind_err_def)
qed

text \<open>
  C9. Whenever \<open>hide\<close> has returned, a second \<open>hide\<close> on what it left returns as well and
  changes neither the display nor the document: the display holds no connection, no
  computation, no graphic, and no data item that is still in the document, and none of the
  listeners the display held is open. And \<open>hide\<close> returns on every display whose list
  connection, if it holds one, has not been closed, whatever the document still contains:
  this includes the display whose computation, data items or graphics the host has already
  removed, whether or not the display still refers to them.
\<close>

theorem hide_twice:
  shows "(hide d m = Inr (d1, m1) \<longrightarrow>
            hide d1 m1 = Inr (d1, m1) \<and> hidden d1 m1 \<and> display_listeners d1 = [] \<and>
            set (listening m1) \<inter> set (display_listeners d) = {}) \<and>
         (interval_list_connection_open d \<longrightarrow> (\<exists>d2 m2. hide d m = Inr (d2, m2)))"
proof (intro conjI impI)
  assume h: "hide d m = Inr (d1, m1)"
  from hide_Inr [OF h] have hid: "hidden d1 m1"
    and l: "set (listening m1) \<inter> set (display_listeners d) = {}" by simp_all
  from hid show "hidden d1 m1" .
  from hid show "hide d1 m1 = Inr (d1, m1)" by (rule hide_hidden)
  from hid show "display_listeners d1 = []"
    by (simp add: hidden_def display_listeners_def)
  from l show "set (listening m1) \<inter> set (display_listeners d) = {}" .
next
  assume "interval_list_connection_open d"
  from hide_returns [OF this] show "\<exists>d2 m2. hide d m = Inr (d2, m2)" by force
qed

lemmas hide_steps =
  hide_def bind_err_def hide_signal_interval_connection_def
  hide_interval_list_connection_def hide_signal_interval_about_to_close_connection_def
  hide_computation_about_to_close_connection_def hide_computation_def
  hide_signal_interval_graphic_def hide_fit_interval_graphics_def
  hide_background_data_item_def hide_signal_data_item_def IntervalConnection_close_def
  IntervalListConnection_close_def close_if_set_def close_or_raise_def close_each_def
  close_listener_def remove_computation_def remove_graphic_def remove_data_item_def

lemma hide_shown_display: "hide shown_display shown_document = Inr (hidden_display, hidden_document)"
  by (simp add: shown_display_def shown_document_def hidden_display_def hidden_document_def
      stale_computation_def hide_steps)

lemma hide_after_removal: "hide shown_display removed_document = Inr (hidden_display, hidden_document)"
  by (simp add: shown_display_def removed_document_def hidden_display_def hidden_document_def
      stale_computation_def hide_steps)

lemma hide_reloaded_display:
  "hide reloaded_display removed_document
     = Inr (hidden_display, removed_document\<lparr>display_graphics := [63]\<rparr>)"
  by (simp add: reloaded_display_def EELSEdgeDisplay_init_def removed_document_def
      hidden_display_def stale_computation_def hide_steps)

theorem hide_twice_witness:
  "interval_list_connection_open shown_display \<and>
   hide shown_display shown_document = Inr (hidden_display, hidden_document) \<and>
   hide shown_display removed_document = Inr (hidden_display, hidden_document) \<and>
   hide hidden_display hidden_document = Inr (hidden_display, hidden_document) \<and>
   hidden hidden_display hidden_document \<and>
   set (listening hidden_document) \<inter> set (display_listeners shown_display) = {} \<and>
   interval_list_connection_open reloaded_display \<and>
   hide reloaded_display removed_document
     = Inr (hidden_display, removed_document\<lparr>display_graphics := [63]\<rparr>) \<and>
   hide hidden_display (removed_document\<lparr>display_graphics := [63]\<rparr>)
     = Inr (hidden_display, removed_document\<lparr>display_graphics := [63]\<rparr>)"
proof -
  have s: "interval_list_connection_open shown_display"
    by (simp add: interval_list_connection_open_def shown_display_def)
  have r: "interval_list_connection_open reloaded_display"
    by (simp add: interval_list_connection_open_def reloaded_display_def EELSEdgeDisplay_init_def)
  from hide_twice [of shown_display removed_document hidden_display hidden_document]
    hide_twice [of reloaded_display removed_document hidden_display
      "removed_document\<lparr>display_graphics := [63]\<rparr>"]
    hide_shown_display hide_after_removal hide_reloaded_display s r
  show ?thesis by simp
qed
section \<open>IntervalConnection\<close>

lemma graphic_change_echo:
  assumes "connection w = Some c" and "\<not> blocked c" and "graphic_listener_open c"
    and "binding_listener_open c" and "target_setter_set c"
    and "interval_property_name c = ''signal_eels_interval''" and "eels_data_len c > 0"
  shows "\<exists>x v' w'. convert_back c (next_obj_id w) (Some v) = Inr x \<and>
           convert c (IntervalObj x :: 'b pyobj) = Inr v' \<and>
           IntervalGraphic_set_interval w (Some v) = Inr w' \<and>
           writes w' = writes w @ [GraphicWrite (Some v),
                                   EdgeWrite ''signal_eels_interval'' (IntervalObj x),
                                   GraphicWrite (Some v')] \<and>
           signal_eels_interval (the_edge w') = IntervalObj x \<and> graphic_interval w' = Some v' \<and>
           connection w' = Some c"
  using assms
  by (cases v)
     (simp add: connection_calls convert_back_def convert_def from_fractional_interval_def
        to_fractional_interval_def edge_setattr_def edge_getattr_def set_signal_eels_interval_def
        Let_def)

lemma edge_change_echo:
  assumes "connection w = Some c" and "\<not> blocked c" and "graphic_listener_open c"
    and "binding_listener_open c" and "target_setter_set c"
    and "interval_property_name c = ''signal_eels_interval''" and "eels_data_len c > 0"
    and "start_ev x \<noteq> None" and "end_ev x \<noteq> None"
  shows "\<exists>v x' v' w'. convert c (IntervalObj x :: 'b pyobj) = Inr v \<and>
           convert_back c (next_obj_id w) (Some v) = Inr x' \<and>
           convert c (IntervalObj x' :: 'b pyobj) = Inr v' \<and>
           EELSEdge_setattr w ''signal_eels_interval'' (IntervalObj x) = Inr w' \<and>
           writes w' = writes w @ [EdgeWrite ''signal_eels_interval'' (IntervalObj x),
                                   GraphicWrite (Some v),
                                   EdgeWrite ''signal_eels_interval'' (IntervalObj x'),
                                   GraphicWrite (Some v')] \<and>
           signal_eels_interval (the_edge w') = IntervalObj x' \<and> graphic_interval w' = Some v' \<and>
           connection w' = Some c"
  using assms
  by (auto simp: connection_calls convert_back_def convert_def from_fractional_interval_def
        to_fractional_interval_def edge_setattr_def edge_getattr_def set_signal_eels_interval_def
        Let_def)

text \<open>
  C5, as claimed, on the connection bound to the signal interval: the graphic is set once
  from outside, to (1/4, 1/2). The edge is written once (512..1024), and after that write
  the binding writes the graphic again.
\<close>

theorem graphic_change_writes_graphic_back:
  "map_sum id writes (IntervalGraphic_set_interval bound_world (Some (1/4, 1/2)))
     = Inr [GraphicWrite (Some (1/4, 1/2)),
            EdgeWrite ''signal_eels_interval''
              (IntervalObj \<lparr>obj_id = 1, start_ev = Some 512, end_ev = Some 1024\<rparr>),
            GraphicWrite (Some (1/4, 1/2))]"
  by (simp add: connection_calls bound_world_def unbound_world_def IntervalConnection_init_def
      example_edge_def identity_calibration_def convert_back_def convert_def from_fractional_interval_def
      to_fractional_interval_def edge_setattr_def edge_getattr_def set_signal_eels_interval_def
      Let_def)

text \<open>
  C5, amended. On a live connection bound to \<open>signal_eels_interval\<close> (not blocked, both
  listeners open, a positive data length), one change of the graphic's interval from outside
  returns normally and causes exactly one write to the edge's property, of the interval
  converted back from the graphic, and after it exactly one write back to the graphic, of
  that interval converted again; nothing else is written and the guard is open again.
\<close>

theorem graphic_change_one_edge_write_one_echo:
  assumes "connection w = Some c" and "\<not> blocked c" and "graphic_listener_open c"
    and "binding_listener_open c" and "target_setter_set c"
    and "interval_property_name c = ''signal_eels_interval''" and "eels_data_len c > 0"
  shows "\<exists>x v' w'. convert_back c (next_obj_id w) (Some v) = Inr x \<and>
           convert c (IntervalObj x :: 'b pyobj) = Inr v' \<and>
           IntervalGraphic_set_interval w (Some v) = Inr w' \<and>
           writes w' = writes w @ [GraphicWrite (Some v),
                                   EdgeWrite ''signal_eels_interval'' (IntervalObj x),
                                   GraphicWrite (Some v')] \<and>
           connection w' = Some c"
  using graphic_change_echo [OF assms, of v] by blast

theorem graphic_change_one_edge_write_one_echo_witness:
  "\<exists>x v' w'. convert_back (the (connection bound_world)) 1 (Some (3/4, 1)) = Inr x \<and>
     convert (the (connection bound_world)) (IntervalObj x :: string pyobj) = Inr v' \<and>
     IntervalGraphic_set_interval bound_world (Some (3/4, 1)) = Inr w' \<and>
     writes w' = [GraphicWrite (Some (3/4, 1)), EdgeWrite ''signal_eels_interval'' (IntervalObj x),
                  GraphicWrite (Some v')] \<and>
     connection w' = connection bound_world"
  using graphic_change_one_edge_write_one_echo [where w = bound_world
      and c = "the (connection bound_world)" and v = "(3/4, 1)"]
  by (simp add: bound_world_def unbound_world_def IntervalConnection_init_def)

text \<open>
  C6, as claimed, on the edge with signal interval 400..420 and a graphic at (0, 1):
  constructing the connection leaves the graphic at (0, 1), while the edge's interval
  converts to (25/128, 105/512); nothing has been written.
\<close>

theorem init_does_not_push:
  "graphic_interval bound_world = Some (0, 1) \<and> writes bound_world = [] \<and>
   map_sum id Some
     (convert (the (connection bound_world)) (signal_eels_interval (the_edge bound_world)))
     = Inr (Some (25/128, 105/512)) \<and>
   graphic_interval bound_world \<noteq> Some (25/128, 105/512)"
  by (simp add: bound_world_def unbound_world_def IntervalConnection_init_def example_edge_def
      identity_calibration_def convert_def to_fractional_interval_def)

text \<open>
  C6, amended. Constructing an \<open>IntervalConnection\<close> writes nothing: the graphic's interval,
  the edge and the log are what they were. The edge's value reaches the graphic with the
  edge's next change of the bound property: on the connection just constructed (positive
  data length), assigning an interval with both bounds to \<open>signal_eels_interval\<close> writes the
  edge and then, first of all other writes, the converted interval to the graphic.
\<close>

theorem init_writes_nothing:
  shows "graphic_interval (IntervalConnection_init w n cal name) = graphic_interval w \<and>
         the_edge (IntervalConnection_init w n cal name) = the_edge w \<and>
         writes (IntervalConnection_init w n cal name) = writes w \<and>
         (0 < n \<and> start_ev x \<noteq> None \<and> end_ev x \<noteq> None \<longrightarrow>
            (\<exists>v w'. to_fractional_interval x n cal = Inr v \<and>
               EELSEdge_setattr (IntervalConnection_init w n cal ''signal_eels_interval'')
                 ''signal_eels_interval'' (IntervalObj x) = Inr w' \<and>
               take 2 (drop (length (writes w)) (writes w'))
                 = [EdgeWrite ''signal_eels_interval'' (IntervalObj x), GraphicWrite (Some v)]))"
proof (intro conjI impI)
  let ?w = "IntervalConnection_init w n cal ''signal_eels_interval''"
  let ?c = "\<lparr>interval_property_name = ''signal_eels_interval'', eels_data_len = n,
             eels_calibration = cal, target_setter_set = True, blocked = False,
             graphic_listener_open = True, binding_listener_open = True\<rparr>"
  assume a: "0 < n \<and> start_ev x \<noteq> None \<and> end_ev x \<noteq> None"
  have c: "connection ?w = Some ?c" by (simp add: IntervalConnection_init_def)
  have "\<exists>v x' v' w'. convert ?c (IntervalObj x :: 'b pyobj) = Inr v \<and>
           convert_back ?c (next_obj_id ?w) (Some v) = Inr x' \<and>
           convert ?c (IntervalObj x' :: 'b pyobj) = Inr v' \<and>
           EELSEdge_setattr ?w ''signal_eels_interval'' (IntervalObj x) = Inr w' \<and>
           writes w' = writes ?w @ [EdgeWrite ''signal_eels_interval'' (IntervalObj x),
                                   GraphicWrite (Some v),
                                   EdgeWrite ''signal_eels_interval'' (IntervalObj x'),
                                   GraphicWrite (Some v')] \<and>
           signal_eels_interval (the_edge w') = IntervalObj x' \<and> graphic_interval w' = Some v' \<and>
           connection w' = Some ?c"
    by (rule edge_change_echo [OF c]) (use a in simp_all)
  then obtain v x' v' w' where "convert ?c (IntervalObj x :: 'b pyobj) = Inr v"
    and "EELSEdge_setattr ?w ''signal_eels_interval'' (IntervalObj x) = Inr w'"
    and "writes w' = writes ?w @ [EdgeWrite ''signal_eels_interval'' (IntervalObj x),
                                   GraphicWrite (Some v),
                                   EdgeWrite ''signal_eels_interval'' (IntervalObj x'),
                                   GraphicWrite (Some v')]"
    by blast
  then show "\<exists>v w'. to_fractional_interval x n cal = Inr v \<and>
               EELSEdge_setattr ?w ''signal_eels_interval'' (IntervalObj x) = Inr w' \<and>
               take 2 (drop (length (writes w)) (writes w'))
                 = [EdgeWrite ''signal_eels_interval'' (IntervalObj x), GraphicWrite (Some v)]"
    by (auto simp: convert_def IntervalConnection_init_def)
qed (simp_all add: IntervalConnection_init_def)

theorem init_writes_nothing_witness:
  "graphic_interval bound_world = graphic_interval unbound_world \<and>
   writes bound_world = writes unbound_world \<and>
   (\<exists>w'. EELSEdge_setattr bound_world ''signal_eels_interval''
            (IntervalObj \<lparr>obj_id = 9, start_ev = Some 512, end_ev = Some 1024\<rparr>) = Inr w' \<and>
          take 2 (writes w')
            = [EdgeWrite ''signal_eels_interval''
                 (IntervalObj \<lparr>obj_id = 9, start_ev = Some 512, end_ev = Some 1024\<rparr>),
               GraphicWrite (Some (1/4, 1/2))])"
  using init_writes_nothing [where w = unbound_world and n = 2048 and cal = identity_calibration
      and name = "''signal_eels_interval''"
      and x = "\<lparr>obj_id = 9, start_ev = Some 512, end_ev = Some 1024\<rparr>"]
  by (auto simp: bound_world_def unbound_world_def to_fractional_interval_def
      identity_calibration_def)

section \<open>IntervalListConnection\<close>

lemma py_getitem_norm: "py_norm_index xs i = Some j \<Longrightarrow> py_getitem xs i = Inr (xs ! j)"
  by (simp add: py_getitem_def)

lemma py_setitem_norm: "py_norm_index xs i = Some j \<Longrightarrow> py_setitem xs i v = Inr (xs[j := v])"
  by (simp add: py_setitem_def)

lemma py_norm_index_length: "length xs = length ys \<Longrightarrow> py_norm_index xs i = py_norm_index ys i"
  by (simp add: py_norm_index_def)

lemma update_blocked:
  "lw_blocked w \<Longrightarrow> update_fit_eels_interval w b n = Inr w"
  by (simp add: set_calls)

lemma graphic_set_blocked:
  "lw_blocked w \<Longrightarrow>
   fit_graphic_set_interval w g v
     = Inr (w\<lparr>lw_interval := (lw_interval w)(g := v), lw_calls := lw_calls w @ [Graphic_set g v]\<rparr>)"
  by (simp add: set_calls update_blocked Let_def split: option.splits)

text \<open>The world after an edge-originated value change whose echo goes through.\<close>

lemma set_fit_eels_interval_in_state:
  assumes op: "lw_edge_listeners_open w" and nb: "\<not> lw_blocked w" and dl: "lw_data_len w > 0"
    and len: "length (lw_graphics w) = length (fit_eels_intervals (lw_edge w))"
    and i: "py_norm_index (lw_graphics w) index = Some j"
    and l: "listener_on (lw_property_changed_listeners w) (lw_graphics w ! j) = Some l"
    and b: "py_norm_index (lw_graphics w) (bound_index l) = Some k"
    and u: "((lw_interval w)(lw_graphics w ! j := Some v)) (lw_graphics w ! k) = Some u"
    and v: "to_fractional_interval x (lw_data_len w) (lw_calibration w) = Inr v"
    and x': "from_fractional_interval (lw_next_obj_id w) (lw_data_len w) (lw_calibration w) (Some u) = Inr x'"
    and v': "to_fractional_interval x' (lw_data_len w) (lw_calibration w) = Inr v'"
  shows "set_fit_eels_interval_in w index x
           = Inr (w\<lparr>lw_next_obj_id := Suc (lw_next_obj_id w),
                    lw_edge := (lw_edge w)\<lparr>fit_eels_intervals :=
                                   (fit_eels_intervals (lw_edge w))[j := x, k := x']\<rparr>,
                    lw_interval := (lw_interval w)(lw_graphics w ! j := Some v, lw_graphics w ! k := Some v'),
                    lw_calls := lw_calls w @ [Edge_set index x, Graphic_set (lw_graphics w ! j) (Some v),
                                              Edge_set (bound_index l) x',
                                              Graphic_set (lw_graphics w ! k) (Some v')],
                    lw_blocked := False\<rparr>)"
proof -
  let ?fits = "fit_eels_intervals (lw_edge w)"
  have i': "py_norm_index ?fits index = Some j"
    using i py_norm_index_length [OF len] by simp
  have b': "py_norm_index (?fits[j := x]) (bound_index l) = Some k"
    using b py_norm_index_length [of "lw_graphics w" "?fits[j := x]"] len by simp
  let ?w1 = "w\<lparr>lw_edge := (lw_edge w)\<lparr>fit_eels_intervals := ?fits[j := x]\<rparr>,
               lw_calls := lw_calls w @ [Edge_set index x]\<rparr>"
  let ?w2 = "?w1\<lparr>lw_interval := (lw_interval w)(lw_graphics w ! j := Some v),
                 lw_calls := lw_calls w @ [Edge_set index x, Graphic_set (lw_graphics w ! j) (Some v)]\<rparr>"
  let ?w3 = "?w2\<lparr>lw_blocked := True, lw_next_obj_id := Suc (lw_next_obj_id w)\<rparr>"
  let ?w4 = "?w3\<lparr>lw_edge := (lw_edge w)\<lparr>fit_eels_intervals := ?fits[j := x, k := x']\<rparr>,
                 lw_calls := lw_calls w @ [Edge_set index x, Graphic_set (lw_graphics w ! j) (Some v),
                                           Edge_set (bound_index l) x']\<rparr>"
  let ?w5 = "?w4\<lparr>lw_interval := (lw_interval ?w4)(lw_graphics w ! k := Some v'),
                 lw_calls := lw_calls ?w4 @ [Graphic_set (lw_graphics w ! k) (Some v')]\<rparr>"
  have inner: "set_fit_eels_interval_in ?w3 (bound_index l) x' = Inr ?w5"
    using op v' b b'
    by (simp add: set_fit_eels_interval_in.simps fit_eels_interval_value_changed.simps
        set_fit_eels_interval_def py_setitem_norm py_getitem_norm graphic_set_blocked)
  have upd: "update_fit_eels_interval ?w2 (bound_index l) ''interval'' = Inr (?w5\<lparr>lw_blocked := False\<rparr>)"
    using nb b u x' inner
    by (simp add: update_fit_eels_interval.simps py_getitem_norm)
  have "set_fit_eels_interval_in w index x = Inr (?w5\<lparr>lw_blocked := False\<rparr>)"
    using op v i i' l upd
    by (simp add: set_fit_eels_interval_in.simps fit_eels_interval_value_changed.simps
        fit_graphic_set_interval.simps set_fit_eels_interval_def py_setitem_norm py_getitem_norm)
  then show ?thesis by simp
qed


text \<open>
  C4, as claimed, on the shown edge with the one fit interval \<open>A\<close>: the edge replaces it by
  \<open>B\<close>. The push into graphic 30 fires the graphic's listener with the guard open, and the
  listener calls \<open>set_fit_eels_interval\<close> on the edge again, with a new interval object.
\<close>

theorem edge_value_change_writes_edge_back:
  "map_sum id lw_calls (set_fit_eels_interval_in world_A 0 interval_B)
     = Inr [Edge_set 0 interval_B, Graphic_set 30 (Some (25/256, 105/1024)),
            Edge_set 0 \<lparr>obj_id = 40, start_ev = Some 200, end_ev = Some 210\<rparr>,
            Graphic_set 30 (Some (25/256, 105/1024))]"
  by (simp add: set_calls world_A_def IntervalListConnection_init_def enumerate_from_def
      edge_ABA_def interval_A_def interval_B_def identity_calibration_def listener_on_def
      set_fit_eels_interval_def py_setitem_def py_getitem_def py_norm_index_def
      to_fractional_interval_def from_fractional_interval_def Let_def)

text \<open>
  C4, amended. Let the connection be live (edge listeners open, guard open, positive data
  length), let the lists be of one length, \<open>index\<close> a valid index for position \<open>j\<close>, and
  let the listener of the graphic at position \<open>j\<close> be bound to \<open>j\<close>, as it is when the
  connection is constructed. Then an edge-originated value change of fit interval \<open>index\<close>
  to an interval with both bounds returns normally and pushes the converted value into
  graphic \<open>j\<close>; that push fires the graphic's listener with the guard open, which writes
  back into the edge exactly once, by \<open>set_fit_eels_interval(j, ...)\<close> with a new interval
  converted back from what graphic \<open>j\<close> has just received; the push this second change
  makes into graphic \<open>j\<close> is gated by the guard, so the run ends there, with the guard
  open again.
\<close>

theorem edge_value_change_echo:
  assumes op: "lw_edge_listeners_open w" and nb: "\<not> lw_blocked w" and dl: "lw_data_len w > 0"
    and len: "length (lw_graphics w) = length (fit_eels_intervals (lw_edge w))"
    and i: "py_norm_index (lw_graphics w) index = Some j"
    and l: "listener_on (lw_property_changed_listeners w) (lw_graphics w ! j) = Some l"
    and b: "bound_index l = int j"
    and v: "to_fractional_interval x (lw_data_len w) (lw_calibration w) = Inr v"
  shows "\<exists>x' v' w'.
           from_fractional_interval (lw_next_obj_id w) (lw_data_len w) (lw_calibration w) (Some v) = Inr x' \<and>
           to_fractional_interval x' (lw_data_len w) (lw_calibration w) = Inr v' \<and>
           set_fit_eels_interval_in w index x = Inr w' \<and>
           lw_calls w' = lw_calls w @ [Edge_set index x, Graphic_set (lw_graphics w ! j) (Some v),
                                       Edge_set (int j) x', Graphic_set (lw_graphics w ! j) (Some v')] \<and>
           fit_eels_intervals (lw_edge w') = (fit_eels_intervals (lw_edge w))[j := x'] \<and>
           lw_interval w' = (lw_interval w)(lw_graphics w ! j := Some v') \<and>
           \<not> lw_blocked w'"
proof -
  obtain v0 v1 where vv: "v = (v0, v1)" by (cases v)
  define x' where "x' = \<lparr>obj_id = lw_next_obj_id w,
      start_ev = Some (convert_to_calibrated_value (lw_calibration w) (v0 * real_of_int (lw_data_len w))),
      end_ev = Some (convert_to_calibrated_value (lw_calibration w) (v1 * real_of_int (lw_data_len w)))\<rparr>"
  have fx: "from_fractional_interval (lw_next_obj_id w) (lw_data_len w) (lw_calibration w) (Some v) = Inr x'"
    using dl by (simp add: from_fractional_interval_def vv x'_def)
  obtain v' where v': "to_fractional_interval x' (lw_data_len w) (lw_calibration w) = Inr v'"
    using dl by (simp add: to_fractional_interval_def x'_def)
  have j: "j < length (lw_graphics w)"
    using i by (rule py_norm_index_less)
  have bj: "py_norm_index (lw_graphics w) (bound_index l) = Some j"
    using j b by (simp add: py_norm_index_def)
  have u: "((lw_interval w)(lw_graphics w ! j := Some v)) (lw_graphics w ! j) = Some v"
    by simp
  define w' where "w' = w\<lparr>lw_next_obj_id := Suc (lw_next_obj_id w),
      lw_edge := (lw_edge w)\<lparr>fit_eels_intervals := (fit_eels_intervals (lw_edge w))[j := x, j := x']\<rparr>,
      lw_interval := (lw_interval w)(lw_graphics w ! j := Some v, lw_graphics w ! j := Some v'),
      lw_calls := lw_calls w @ [Edge_set index x, Graphic_set (lw_graphics w ! j) (Some v),
                                Edge_set (bound_index l) x',
                                Graphic_set (lw_graphics w ! j) (Some v')],
      lw_blocked := False\<rparr>"
  have st: "set_fit_eels_interval_in w index x = Inr w'"
    unfolding w'_def
    by (rule set_fit_eels_interval_in_state [OF op nb dl len i l bj u v fx v'])
  have c: "lw_calls w' = lw_calls w @ [Edge_set index x, Graphic_set (lw_graphics w ! j) (Some v),
                                       Edge_set (int j) x', Graphic_set (lw_graphics w ! j) (Some v')]"
    using b by (simp add: w'_def)
  have f: "fit_eels_intervals (lw_edge w') = (fit_eels_intervals (lw_edge w))[j := x']"
    by (simp add: w'_def)
  have g: "lw_interval w' = (lw_interval w)(lw_graphics w ! j := Some v')"
    by (simp add: w'_def)
  have nb': "\<not> lw_blocked w'"
    by (simp add: w'_def)
  from fx v' st c f g nb' show ?thesis by blast
qed

theorem edge_value_change_echo_witness:
  "\<exists>x' v' w'.
     from_fractional_interval 40 2048 identity_calibration (Some (25/256, 105/1024)) = Inr x' \<and>
     to_fractional_interval x' 2048 identity_calibration = Inr v' \<and>
     set_fit_eels_interval_in world_A 0 interval_B = Inr w' \<and>
     lw_calls w' = [Edge_set 0 interval_B, Graphic_set 30 (Some (25/256, 105/1024)),
                    Edge_set 0 x', Graphic_set 30 (Some v')] \<and>
     fit_eels_intervals (lw_edge w') = [x'] \<and>
     lw_interval w' 30 = Some v' \<and>
     \<not> lw_blocked w'"
proof -
  have w: "lw_edge_listeners_open world_A" "\<not> lw_blocked world_A" "lw_data_len world_A = 2048"
    "lw_calibration world_A = identity_calibration" "lw_graphics world_A = [30]"
    "fit_eels_intervals (lw_edge world_A) = [interval_A]" "lw_next_obj_id world_A = 40"
    "lw_calls world_A = []"
    "lw_property_changed_listeners world_A = [\<lparr>target = 30, bound_index = 0\<rparr>]"
    by (simp_all add: world_A_def IntervalListConnection_init_def enumerate_from_def edge_ABA_def)
  have v: "to_fractional_interval interval_B 2048 identity_calibration = Inr (25/256, 105/1024)"
    by (simp add: to_fractional_interval_def interval_B_def identity_calibration_def)
  have "\<exists>x' v' w'.
     from_fractional_interval 40 2048 identity_calibration (Some (25/256, 105/1024)) = Inr x' \<and>
     to_fractional_interval x' 2048 identity_calibration = Inr v' \<and>
     set_fit_eels_interval_in world_A 0 interval_B = Inr w' \<and>
     lw_calls w' = [] @ [Edge_set 0 interval_B, Graphic_set ([30] ! 0) (Some (25/256, 105/1024)),
                    Edge_set (int 0) x', Graphic_set ([30] ! 0) (Some v')] \<and>
     fit_eels_intervals (lw_edge w') = [interval_A][0 := x'] \<and>
     lw_interval w' = (lw_interval world_A)([30] ! 0 := Some v') \<and>
     \<not> lw_blocked w'"
    using edge_value_change_echo [where w = world_A and index = 0 and x = interval_B and j = 0
      and l = "\<lparr>target = 30, bound_index = 0\<rparr>" and v = "(25/256, 105/1024)"]
      w(1) w(2)
    unfolding w(3-9)
    by (simp only: v listener_on_def py_norm_index_def list.size find.simps listener.simps
        nth_Cons_0 simp_thms if_True if_False of_nat_0 of_nat_Suc) simp
  then obtain x' v' w' where
    "from_fractional_interval 40 2048 identity_calibration (Some (25/256, 105/1024)) = Inr x'"
    "to_fractional_interval x' 2048 identity_calibration = Inr v'"
    "set_fit_eels_interval_in world_A 0 interval_B = Inr w'"
    "lw_calls w' = [] @ [Edge_set 0 interval_B, Graphic_set ([30] ! 0) (Some (25/256, 105/1024)),
                    Edge_set (int 0) x', Graphic_set ([30] ! 0) (Some v')]"
    "fit_eels_intervals (lw_edge w') = [interval_A][0 := x']"
    "lw_interval w' = (lw_interval world_A)([30] ! 0 := Some v')"
    "\<not> lw_blocked w'"
    by blast
  then have
    "from_fractional_interval 40 2048 identity_calibration (Some (25/256, 105/1024)) = Inr x' \<and>
     to_fractional_interval x' 2048 identity_calibration = Inr v' \<and>
     set_fit_eels_interval_in world_A 0 interval_B = Inr w' \<and>
     lw_calls w' = [Edge_set 0 interval_B, Graphic_set 30 (Some (25/256, 105/1024)),
                    Edge_set 0 x', Graphic_set 30 (Some v')] \<and>
     fit_eels_intervals (lw_edge w') = [x'] \<and>
     lw_interval w' 30 = Some v' \<and>
     \<not> lw_blocked w'"
    by simp
  then show ?thesis by blast
qed

text \<open>Removing a fit interval from a shown edge whose interval objects are pairwise distinct
  keeps the graphics parallel to the intervals.\<close>

lemma listener_on_None: "g \<notin> set (map target ls) \<Longrightarrow> listener_on ls g = None"
  by (auto simp: listener_on_def find_None_iff)

lemma distinct_nth_notin_delete:
  "distinct xs \<Longrightarrow> j < length xs \<Longrightarrow> xs ! j \<notin> set (take j xs @ drop (Suc j) xs)"
  by (metis distinct_take distinct_drop append_take_drop_id Cons_nth_drop_Suc distinct_append
      distinct.simps(2) Un_iff set_append disjoint_iff list.set_intros(1))

lemma distinct_delete: "distinct xs \<Longrightarrow> distinct (take j xs @ drop (Suc j) xs)"
  by (metis append_take_drop_id distinct_append distinct_drop set_drop_subset subset_eq
      disjoint_iff drop_Suc tl_drop distinct_tl set_take_disj_set_drop_if_distinct le_SucI order_refl)

lemma set_delete_subset: "set (take j xs @ drop (Suc j) xs) \<subseteq> set xs"
  by (auto dest: in_set_takeD in_set_dropD)

lemma map_delete: "map f (take j xs @ drop (Suc j) xs) = take j (map f xs) @ drop (Suc j) (map f xs)"
  by (simp add: take_map drop_map)

lemma list_all_delete: "list_all P xs \<Longrightarrow> list_all P (take j xs @ drop (Suc j) xs)"
  using set_delete_subset [of j xs] by (auto simp: list_all_iff)

lemma list_all2_delete:
  "list_all2 P xs ys \<Longrightarrow> list_all2 P (take j xs @ drop (Suc j) xs) (take j ys @ drop (Suc j) ys)"
  by (simp add: list_all2_appendI list_all2_takeI list_all2_dropI)

lemma remove_keeps_parallel:
  assumes al: "aligned w" and par: "parallel w"
    and i: "py_norm_index (fit_eels_intervals (lw_edge w)) i = Some j"
  shows "\<exists>w'. remove_fit_eels_interval_in w i = Inr w' \<and> parallel w' \<and> aligned w' \<and>
           fit_eels_intervals (lw_edge w')
             = take j (fit_eels_intervals (lw_edge w)) @ drop (Suc j) (fit_eels_intervals (lw_edge w)) \<and>
           lw_graphics w' = take j (lw_graphics w) @ drop (Suc j) (lw_graphics w)"
proof -
  let ?fits = "fit_eels_intervals (lw_edge w)"
  let ?del = "\<lambda>xs. take j xs @ drop (Suc j) xs"
  from par have len: "length (lw_graphics w) = length ?fits"
    by (simp add: parallel_def list_all2_lengthD)
  from al have tp: "map target (lw_property_changed_listeners w) = lw_graphics w"
    and tr: "map target (lw_about_to_be_removed_listeners w) = lw_graphics w"
    and dg: "distinct (lw_graphics w)" and df: "distinct (map obj_id ?fits)"
    and sub: "set (lw_graphics w) \<subseteq> set (lw_display_graphics w)"
    and fl: "lw_edge_listeners_open w" "\<not> lw_remove_blocked w"
    by (simp_all add: aligned_def)
  have lp: "length (lw_property_changed_listeners w) = length ?fits"
    using tp len by (metis length_map)
  have lr: "length (lw_about_to_be_removed_listeners w) = length ?fits"
    using tr len by (metis length_map)
  have jl: "j < length ?fits" using i by (rule py_norm_index_less)
  have ig: "py_norm_index (lw_graphics w) i = Some j"
    using i py_norm_index_length [OF len] by simp
  have ip: "py_norm_index (lw_property_changed_listeners w) i = Some j"
    using i py_norm_index_length [OF lp] by simp
  have ir: "py_norm_index (lw_about_to_be_removed_listeners w) i = Some j"
    using i py_norm_index_length [OF lr] by simp
  let ?g = "lw_graphics w ! j"
  let ?w1 = "w\<lparr>lw_edge := (lw_edge w)\<lparr>fit_eels_intervals := ?del ?fits\<rparr>,
               lw_calls := lw_calls w @ [Edge_remove i]\<rparr>"
  let ?w2 = "?w1\<lparr>lw_property_changed_listeners := ?del (lw_property_changed_listeners w),
                 lw_about_to_be_removed_listeners := ?del (lw_about_to_be_removed_listeners w)\<rparr>"
  let ?w3 = "?w2\<lparr>lw_display_graphics := removeAll ?g (lw_display_graphics w),
                 lw_computation_objects := removeAll ?g (lw_computation_objects w)\<rparr>"
  let ?w4 = "?w3\<lparr>lw_graphics := ?del (lw_graphics w)\<rparr>"
  have tr': "map target (?del (lw_about_to_be_removed_listeners w)) = ?del (lw_graphics w)"
    using tr by (simp add: map_delete del: map_append)
  have tp': "map target (?del (lw_property_changed_listeners w)) = ?del (lw_graphics w)"
    using tp by (simp add: map_delete del: map_append)
  have notin: "?g \<notin> set (?del (lw_graphics w))"
    by (metis distinct_nth_notin_delete dg jl len)
  have nol: "listener_on (?del (lw_about_to_be_removed_listeners w)) ?g = None"
    using notin tr' by (simp add: listener_on_None)
  have gin: "?g \<in> set (lw_display_graphics w)"
    using sub jl len by (metis nth_mem subsetD)
  have d2: "display_remove_graphic ?w2 ?g = Inr ?w3"
    using gin nol by (simp add: display_remove_graphic.simps)
  have run: "remove_fit_eels_interval_in w i = Inr ?w4"
    using remove_fit_eels_interval_distinct [OF df i] fl ip ir ig d2
    by (simp add: remove_fit_eels_interval_in.simps fit_eels_interval_removed.simps
        drop_listeners_def drop_graphic_def py_delitem_def py_getitem_def)
  have par': "parallel ?w4"
    using par by (simp add: parallel_def list_all2_delete)
  have dg': "distinct (?del (lw_graphics w))"
    using dg by (rule distinct_delete)
  have df': "distinct (map obj_id (?del ?fits))"
    using df distinct_delete [of "map obj_id ?fits" j] by (simp add: map_delete del: map_append)
  have sub': "set (?del (lw_graphics w)) \<subseteq> set (removeAll ?g (lw_display_graphics w))"
    using sub notin set_delete_subset [of j "lw_graphics w"] by auto
  have la: "list_all (\<lambda>g. g < lw_next_graphic w) (removeAll ?g (lw_display_graphics w))"
    using al by (auto simp: aligned_def list_all_iff)
  have lo: "list_all (\<lambda>x. obj_id x < lw_next_obj_id w) (?del ?fits)"
    using al by (simp only: aligned_def list_all_delete)
  have al': "aligned ?w4"
    unfolding aligned_def
    using al tp' tr' dg' df' sub' la lo
    by (simp add: aligned_def del: map_append set_append distinct_append list_all_append)
  from run par' al' show ?thesis by auto
qed

text \<open>Inserting a new interval object with both bounds keeps the lists parallel.\<close>

lemma py_insert_length: "length xs = length ys \<Longrightarrow>
  \<exists>p. py_insert xs i a = take p xs @ a # drop p xs \<and> py_insert ys i b = take p ys @ b # drop p ys"
  unfolding py_insert_def Let_def by (cases "i < 0") (simp_all, blast+)

lemma set_py_insert: "set (py_insert xs i a) = insert a (set xs)"
proof -
  have "\<And>p. set (take p xs @ a # drop p xs) = insert a (set xs)"
    by (metis append_take_drop_id set_append list.simps(15) Un_insert_right)
  then show ?thesis by (simp add: py_insert_def Let_def del: set_append)
qed

lemma map_py_insert: "map f (py_insert xs i a) = py_insert (map f xs) i (f a)"
  by (simp add: py_insert_def Let_def take_map drop_map)

lemma distinct_py_insert: "distinct xs \<Longrightarrow> a \<notin> set xs \<Longrightarrow> distinct (py_insert xs i a)"
proof -
  assume d: "distinct xs" and n: "a \<notin> set xs"
  have "\<And>p. distinct (take p xs @ a # drop p xs)"
    using d n
    by (metis append_take_drop_id distinct_append distinct.simps(2) in_set_takeD in_set_dropD
        disjoint_insert(1) list.simps(15))
  then show ?thesis by (simp add: py_insert_def Let_def del: distinct_append)
qed

lemma list_all2_py_insert:
  assumes "list_all2 P xs ys" and "P a b"
  shows "list_all2 P (py_insert xs i a) (py_insert ys i b)"
proof -
  from assms(1) have len: "length xs = length ys" by (rule list_all2_lengthD)
  from py_insert_length [OF len, of i a b] obtain p where
    "py_insert xs i a = take p xs @ a # drop p xs" "py_insert ys i b = take p ys @ b # drop p ys"
    by blast
  with assms show ?thesis
    by (simp add: list_all2_appendI list_all2_takeI list_all2_dropI)
qed

lemma list_all2_mono_set:
  "list_all2 P xs ys \<Longrightarrow> (\<And>a b. a \<in> set xs \<Longrightarrow> P a b \<Longrightarrow> Q a b) \<Longrightarrow> list_all2 Q xs ys"
  by (auto simp: list_all2_conv_all_nth)

lemma insert_keeps_parallel:
  assumes al: "aligned w" and par: "parallel w"
    and v: "to_fractional_interval x (lw_data_len w) (lw_calibration w) = Inr v"
    and fresh: "obj_id x \<notin> obj_id ` set (fit_eels_intervals (lw_edge w))"
    and old: "obj_id x < lw_next_obj_id w"
  shows "\<exists>w'. insert_fit_eels_interval_in w i x = Inr w' \<and> parallel w' \<and> aligned w' \<and>
           fit_eels_intervals (lw_edge w') = py_insert (fit_eels_intervals (lw_edge w)) i x \<and>
           lw_graphics w' = py_insert (lw_graphics w) i (lw_next_graphic w)"
proof -
  let ?fits = "fit_eels_intervals (lw_edge w)"
  let ?g = "lw_next_graphic w"
  let ?l = "\<lparr>target = ?g, bound_index = i\<rparr>"
  from al have tp: "map target (lw_property_changed_listeners w) = lw_graphics w"
    and tr: "map target (lw_about_to_be_removed_listeners w) = lw_graphics w"
    and dg: "distinct (lw_graphics w)" and df: "distinct (map obj_id ?fits)"
    and sub: "set (lw_graphics w) \<subseteq> set (lw_display_graphics w)"
    and lt: "list_all (\<lambda>g. g < ?g) (lw_display_graphics w)"
    and lo: "list_all (\<lambda>x. obj_id x < lw_next_obj_id w) ?fits"
    and fl: "lw_edge_listeners_open w" "\<not> lw_blocked w" "\<not> lw_remove_blocked w" "lw_data_len w > 0"
    by (simp_all add: aligned_def)
  have gd: "?g \<notin> set (lw_display_graphics w)"
    using lt by (auto simp: list_all_iff)
  with sub have gn: "?g \<notin> set (lw_graphics w)" by auto
  let ?w' = "w\<lparr>lw_edge := (lw_edge w)\<lparr>fit_eels_intervals := py_insert ?fits i x\<rparr>,
               lw_calls := lw_calls w @ [Edge_insert i x, Graphic_set ?g (Some v)],
               lw_next_graphic := Suc ?g,
               lw_interval := (lw_interval w)(?g := Some v),
               lw_display_graphics := lw_display_graphics w @ [?g],
               lw_graphics := py_insert (lw_graphics w) i ?g,
               lw_property_changed_listeners := py_insert (lw_property_changed_listeners w) i ?l,
               lw_about_to_be_removed_listeners := py_insert (lw_about_to_be_removed_listeners w) i ?l,
               lw_computation_objects := py_insert (lw_computation_objects w) i ?g\<rparr>"
  have nol: "listener_on (lw_property_changed_listeners w) ?g = None"
    using gn tp by (auto simp: listener_on_def find_None_iff image_iff) (metis image_eqI list.set_map)
  have run: "insert_fit_eels_interval_in w i x = Inr ?w'"
    using fl v nol
    by (simp add: insert_fit_eels_interval_in_def fit_eels_interval_inserted_def
        insert_fit_eels_interval_def fit_graphic_set_interval.simps Let_def)
  have P: "list_all2 (\<lambda>g y. map_sum id Some (to_fractional_interval y (lw_data_len w) (lw_calibration w))
                        = Inr (((lw_interval w)(?g := Some v)) g)) (lw_graphics w) ?fits"
    using par gn unfolding parallel_def
    by (auto elim!: list_all2_mono_set)
  have par': "parallel ?w'"
    unfolding parallel_def using list_all2_py_insert [OF P, where a = ?g and b = x and i = i] v by simp
  have al': "aligned ?w'"
    unfolding aligned_def
    using al tp tr gn sub fresh old distinct_py_insert [OF dg gn, of i]
      distinct_py_insert [of "map obj_id ?fits" "obj_id x" i]
    by (auto simp: aligned_def map_py_insert set_py_insert list_all_iff)
  from run par' al' show ?thesis by auto
qed

text \<open>So does a value change to a new interval object with both bounds, when the index bound
  to the listener of the graphic is still in range.\<close>

lemma listener_on_aligned:
  assumes "map target ls = gs" and "distinct gs" and "j < length gs"
  shows "listener_on ls (gs ! j) = Some (ls ! j)"
proof -
  have len: "length ls = length gs" using assms(1) by (metis length_map)
  have t: "\<And>p. p < length gs \<Longrightarrow> target (ls ! p) = gs ! p"
    using assms(1) len by (metis nth_map)
  have "\<exists>p<length ls. target (ls ! p) = gs ! j \<and> ls ! j = ls ! p \<and> (\<forall>q<p. target (ls ! q) \<noteq> gs ! j)"
  proof (intro exI [of _ j] conjI allI impI)
    show "j < length ls" using assms(3) len by simp
    show "target (ls ! j) = gs ! j" using t assms(3) by simp
    show "ls ! j = ls ! j" ..
    fix q assume "q < j"
    then show "target (ls ! q) \<noteq> gs ! j"
      using t [of q] assms(2,3) by (auto simp: nth_eq_iff_index_eq)
  qed
  then show ?thesis by (simp add: listener_on_def find_Some_iff)
qed


lemma parallel_nth:
  assumes "parallel w" and "p < length (lw_graphics w)"
  shows "\<exists>vp. to_fractional_interval (fit_eels_intervals (lw_edge w) ! p) (lw_data_len w) (lw_calibration w) = Inr vp \<and>
           lw_interval w (lw_graphics w ! p) = Some vp"
proof -
  from assms have "map_sum id Some (to_fractional_interval (fit_eels_intervals (lw_edge w) ! p)
                      (lw_data_len w) (lw_calibration w)) = Inr (lw_interval w (lw_graphics w ! p))"
    by (simp add: parallel_def list_all2_conv_all_nth)
  then show ?thesis
    by (cases "to_fractional_interval (fit_eels_intervals (lw_edge w) ! p) (lw_data_len w) (lw_calibration w)")
       auto
qed

lemma set_keeps_parallel:
  assumes al: "aligned w" and par: "parallel w"
    and i: "py_norm_index (fit_eels_intervals (lw_edge w)) index = Some j"
    and v: "to_fractional_interval x (lw_data_len w) (lw_calibration w) = Inr v"
    and fresh: "obj_id x \<notin> obj_id ` set (fit_eels_intervals (lw_edge w))"
    and old: "obj_id x < lw_next_obj_id w"
    and b: "py_norm_index (lw_graphics w) (bound_index (lw_property_changed_listeners w ! j)) = Some k"
  shows "\<exists>w'. set_fit_eels_interval_in w index x = Inr w' \<and> parallel w' \<and> aligned w'"
proof -
  let ?fits = "fit_eels_intervals (lw_edge w)"
  let ?gs = "lw_graphics w"
  let ?l = "lw_property_changed_listeners w ! j"
  from par have len: "length ?gs = length ?fits"
    by (simp add: parallel_def list_all2_lengthD)
  from al have tp: "map target (lw_property_changed_listeners w) = ?gs"
    and dg: "distinct ?gs" and df: "distinct (map obj_id ?fits)"
    and lo: "list_all (\<lambda>x. obj_id x < lw_next_obj_id w) ?fits"
    and fl: "lw_edge_listeners_open w" "\<not> lw_blocked w" "lw_data_len w > 0"
    by (simp_all add: aligned_def)
  have jl: "j < length ?gs" using i len by (simp add: py_norm_index_less)
  have kl: "k < length ?gs" using b by (rule py_norm_index_less)
  have ig: "py_norm_index ?gs index = Some j"
    using i py_norm_index_length [OF len] by simp
  have l: "listener_on (lw_property_changed_listeners w) (?gs ! j) = Some ?l"
    using tp dg jl by (rule listener_on_aligned)
  from parallel_nth [OF par kl] obtain vk where vk: "lw_interval w (?gs ! k) = Some vk" by blast
  define u where "u = (if ?gs ! k = ?gs ! j then v else vk)"
  have u: "((lw_interval w)(?gs ! j := Some v)) (?gs ! k) = Some u"
    using vk by (simp add: u_def)
  obtain u0 u1 where uu: "u = (u0, u1)" by (cases u)
  define x' where "x' = \<lparr>obj_id = lw_next_obj_id w,
      start_ev = Some (convert_to_calibrated_value (lw_calibration w) (u0 * real_of_int (lw_data_len w))),
      end_ev = Some (convert_to_calibrated_value (lw_calibration w) (u1 * real_of_int (lw_data_len w)))\<rparr>"
  have fx: "from_fractional_interval (lw_next_obj_id w) (lw_data_len w) (lw_calibration w) (Some u) = Inr x'"
    using fl by (simp add: from_fractional_interval_def uu x'_def)
  obtain v' where v': "to_fractional_interval x' (lw_data_len w) (lw_calibration w) = Inr v'"
    using fl by (simp add: to_fractional_interval_def x'_def)
  have idx': "obj_id x' = lw_next_obj_id w" by (simp add: x'_def)
  let ?w' = "w\<lparr>lw_next_obj_id := Suc (lw_next_obj_id w),
               lw_edge := (lw_edge w)\<lparr>fit_eels_intervals := ?fits[j := x, k := x']\<rparr>,
               lw_interval := (lw_interval w)(?gs ! j := Some v, ?gs ! k := Some v'),
               lw_calls := lw_calls w @ [Edge_set index x, Graphic_set (?gs ! j) (Some v),
                                         Edge_set (bound_index ?l) x', Graphic_set (?gs ! k) (Some v')],
               lw_blocked := False\<rparr>"
  have run: "set_fit_eels_interval_in w index x = Inr ?w'"
    using fl len ig l b u v fx v' by (rule set_fit_eels_interval_in_state)
  have par': "parallel ?w'"
    unfolding parallel_def list_all2_conv_all_nth
  proof (intro conjI allI impI)
    show "length (lw_graphics ?w') = length (fit_eels_intervals (lw_edge ?w'))"
      using len by simp
  next
    fix p assume "p < length (lw_graphics ?w')"
    then have pl: "p < length ?gs" by simp
    from parallel_nth [OF par pl] obtain vp
      where vp: "to_fractional_interval (?fits ! p) (lw_data_len w) (lw_calibration w) = Inr vp"
        "lw_interval w (?gs ! p) = Some vp" by blast
    have neq: "\<And>q. q < length ?gs \<Longrightarrow> p \<noteq> q \<Longrightarrow> ?gs ! p \<noteq> ?gs ! q"
      using dg pl by (simp add: nth_eq_iff_index_eq)
    show "map_sum id Some (to_fractional_interval (fit_eels_intervals (lw_edge ?w') ! p)
              (lw_data_len ?w') (lw_calibration ?w')) = Inr (lw_interval ?w' (lw_graphics ?w' ! p))"
    proof (cases "p = k")
      case True
      then show ?thesis using v' kl len by simp
    next
      case False
      note pk = this
      show ?thesis
      proof (cases "p = j")
        case True
        then show ?thesis using v pk jl len neq [OF kl pk] by simp
      next
        case False
        then show ?thesis using vp pk neq [OF kl pk] neq [OF jl False] by simp
      qed
    qed
  qed
  have ids: "set (?fits[j := x, k := x']) \<subseteq> insert x (insert x' (set ?fits))"
    by (metis set_update_subset_insert subset_insertI2 insert_mono subset_trans insert_commute)
  have lo': "list_all (\<lambda>y. obj_id y < Suc (lw_next_obj_id w)) (?fits[j := x, k := x'])"
    using ids lo old idx' by (fastforce simp: list_all_iff)
  have d1: "distinct ((map obj_id ?fits)[j := obj_id x])"
    using df fresh by (intro distinct_list_update) auto
  have nx: "obj_id x' \<notin> set ((map obj_id ?fits)[j := obj_id x])"
  proof
    assume "obj_id x' \<in> set ((map obj_id ?fits)[j := obj_id x])"
    then have "obj_id x' \<in> insert (obj_id x) (set (map obj_id ?fits))"
      using set_update_subset_insert by fastforce
    then show False using idx' old lo by (auto simp: list_all_iff)
  qed
  have "distinct ((map obj_id ?fits)[j := obj_id x, k := obj_id x'])"
    using distinct_list_update [OF d1, where a = "obj_id x'" and i = k] nx by blast
  then have df': "distinct (map obj_id (?fits[j := x, k := x']))"
    by (simp add: map_update)
  have al': "aligned ?w'"
    unfolding aligned_def using al df' lo' by (simp add: aligned_def)
  from run par' al' show ?thesis by blast
qed

text \<open>On a live connection in step with its lists, every admissible operation returns and
  keeps the graphics parallel to the intervals, and so does every sequence of operations
  each of which is admissible when its turn comes.\<close>

lemma admissible_op_keeps_parallel:
  assumes "aligned w" and "parallel w" and "admissible w op"
  shows "\<exists>w'. apply_op w op = Inr w' \<and> parallel w' \<and> aligned w'"
proof (cases op)
  case (Insert_fit i x)
  with assms(3) obtain v where "to_fractional_interval x (lw_data_len w) (lw_calibration w) = Inr v"
    and "obj_id x \<notin> obj_id ` set (fit_eels_intervals (lw_edge w))" and "obj_id x < lw_next_obj_id w"
    using assms(1)
    by (auto simp: admissible_def new_interval_def aligned_def to_fractional_interval_def)
  from insert_keeps_parallel [OF assms(1,2) this, of i] Insert_fit show ?thesis
    by (auto simp: apply_op_def)
next
  case (Remove_fit i)
  with assms(3) obtain j where "py_norm_index (fit_eels_intervals (lw_edge w)) i = Some j"
    by (auto simp: admissible_def)
  from remove_keeps_parallel [OF assms(1,2) this] Remove_fit show ?thesis
    by (auto simp: apply_op_def)
next
  case (Set_fit i x)
  with assms(3) obtain v j k where "py_norm_index (fit_eels_intervals (lw_edge w)) i = Some j"
    and "to_fractional_interval x (lw_data_len w) (lw_calibration w) = Inr v"
    and "obj_id x \<notin> obj_id ` set (fit_eels_intervals (lw_edge w))" and "obj_id x < lw_next_obj_id w"
    and "py_norm_index (lw_graphics w) (bound_index (lw_property_changed_listeners w ! j)) = Some k"
    using assms(1)
    by (auto simp: admissible_def new_interval_def aligned_def to_fractional_interval_def
        split: option.splits)
  from set_keeps_parallel [OF assms(1,2) this] Set_fit show ?thesis
    by (auto simp: apply_op_def)
qed

lemma admissible_ops_keep_parallel:
  "aligned w \<Longrightarrow> parallel w \<Longrightarrow> admissible_ops w ops \<Longrightarrow>
   \<exists>w'. apply_ops w ops = Inr w' \<and> parallel w' \<and> aligned w'"
proof (induction ops arbitrary: w)
  case Nil
  then show ?case by simp
next
  case (Cons op ops)
  from Cons.prems have a: "admissible w op" by simp
  from admissible_op_keeps_parallel [OF Cons.prems(1,2) a]
  obtain w1 where w1: "apply_op w op = Inr w1" "parallel w1" "aligned w1" by blast
  with Cons.prems have "admissible_ops w1 ops" by simp
  from Cons.IH [OF w1(3,2) this] w1(1) show ?case by (simp add: bind_err_def)
qed

text \<open>
  C3. The claim: while the edge is shown, after any sequence of insert, remove and
  value-change operations on the fit intervals the graphics and the intervals are parallel.
  On a shown edge without fit intervals, inserting \<open>A\<close>, \<open>B\<close> and the same object \<open>A\<close> again
  gives the intervals \<open>[A, B, A]\<close> parallel to the graphics 30, 31, 32;
  \<open>remove_fit_eels_interval(2)\<close> then leaves the intervals \<open>[B, A]\<close> and the graphics 30, 31
  with the conversions of \<open>A\<close> and \<open>B\<close>: the lengths agree, the contents do not.
\<close>

theorem remove_duplicate_breaks_parallel:
  "map_sum id lists_of (insert_A_B_A shown_empty)
     = Inr ([interval_A, interval_B, interval_A], [30, 31, 32],
            [Some (25/512, 55/1024), Some (25/256, 105/1024), Some (25/512, 55/1024)], True) \<and>
   map_sum id lists_of (insert_A_B_A_remove_2 shown_empty)
     = Inr ([interval_B, interval_A], [30, 31],
            [Some (25/512, 55/1024), Some (25/256, 105/1024)], False)"
  by (simp add: lists_of_def insert_A_B_A_remove_2_def insert_A_B_A_def shown_empty_def
      bind_err_def insert_fit_eels_interval_in_def fit_eels_interval_inserted_def
      insert_fit_eels_interval_def set_calls py_insert_def remove_calls drop_listeners_def
      drop_graphic_def IntervalListConnection_init_def enumerate_from_def edge_ABA_def
      interval_A_def interval_B_def identity_calibration_def listener_on_def parallel_def
      remove_fit_eels_interval_def EELSInterval_eq_def py_delitem_def py_getitem_def
      py_norm_index_def to_fractional_interval_def Let_def)

end
